theory Spec2Isabelle
  imports Complex_Main
begin

section \<open>Retry policy of the token agent (services/token\_agent.py)\<close>

subsection \<open>TransactionRetryConfig and calculate\_retry\_delay\<close>

definition MAX_RETRIES :: nat where
  "MAX_RETRIES = 3"

definition BASE_DELAY :: nat where
  "BASE_DELAY = 2"

definition MAX_DELAY :: nat where
  "MAX_DELAY = 30"

definition BACKOFF_MULTIPLIER :: nat where
  "BACKOFF_MULTIPLIER = 2"

definition RETRYABLE_ERRORS :: "string list" where
  "RETRYABLE_ERRORS =
     [''nonce too low'',
      ''replacement transaction underpriced'',
      ''already known'',
      ''timeout'',
      ''connection'',
      ''network'',
      ''gas price too low'',
      ''max fee per gas less than block base fee'']"

text \<open>
  \<^verbatim>\<open>delay = BASE_DELAY * (BACKOFF_MULTIPLIER ** attempt); return min(delay, MAX_DELAY)\<close>.
  Every caller passes a loop index of \<^verbatim>\<open>range(...)\<close>, so the attempt is a natural number
  and the delay a whole number of seconds.
\<close>

definition calculate_retry_delay :: "nat \<Rightarrow> nat" where
  "calculate_retry_delay attempt =
     (let delay = BASE_DELAY * (BACKOFF_MULTIPLIER ^ attempt)
      in min delay MAX_DELAY)"

subsection \<open>Exceptions and their classification\<close>

text \<open>
  An exception is its class together with its message \<^verbatim>\<open>str(e)\<close>. Only the classes
  that the program tells apart or raises itself are listed; \<open>Exception\<close> stands for any
  other class.
\<close>

datatype exc_class =
  Exception | TimeExhausted | ConnectionError | TransactionNotFound | ValueError | TypeError
| RuntimeError | ResponseError

datatype exn = Exn (exc_class: exc_class) (message: string)

text \<open>\<^verbatim>\<open>str.lower()\<close> on the ASCII letters; the other characters are kept.\<close>

definition lower_char :: "char \<Rightarrow> char" where
  "lower_char c =
     (let n = (of_char c :: nat)
      in if 65 \<le> n \<and> n \<le> 90 then char_of (n + 32) else c)"

definition lower :: "string \<Rightarrow> string" where
  "lower s = map lower_char s"

text \<open>\<^verbatim>\<open>pattern in text\<close> on strings: the pattern occurs as a contiguous substring.\<close>

fun starts_with :: "string \<Rightarrow> string \<Rightarrow> bool" where
  "starts_with [] s = True"
| "starts_with (p # ps) [] = False"
| "starts_with (p # ps) (c # cs) = (p = c \<and> starts_with ps cs)"

fun contains :: "string \<Rightarrow> string \<Rightarrow> bool" where
  "contains pat [] = starts_with pat []"
| "contains pat (c # cs) = (starts_with pat (c # cs) \<or> contains pat cs)"

definition is_retryable_error :: "exn \<Rightarrow> bool" where
  "is_retryable_error error =
     (let error_msg = lower (message error)
      in if list_ex (\<lambda>pattern. contains pattern error_msg) RETRYABLE_ERRORS then True
         else if exc_class error = TimeExhausted \<or> exc_class error = ConnectionError then True
         else False)"

subsection \<open>The chain provider and the trace of calls\<close>

text \<open>
  The transaction dictionary: the retry helper reads and rewrites the nonce and the two
  fee fields only (a fee key may be absent); the other keys pass through unchanged.
\<close>

record transaction_dict =
  tx_nonce :: "int option"
  maxFeePerGas :: "int option"
  maxPriorityFeePerGas :: "int option"

record receipt =
  receipt_status :: int
  gasUsed :: int

text \<open>
  Every call that leaves the process is recorded in a trace, in the order it happens:
  a request for the transaction count, a sign-and-send of a transaction, a wait for a
  receipt, a \<^verbatim>\<open>time.sleep\<close> of so many seconds, and one invocation of a function
  wrapped by the retry decorator.
\<close>

datatype event =
  GetTransactionCount
| SendRawTransaction transaction_dict
| WaitForReceipt "string option"
| Sleep nat
| CallWrapped

fun is_count :: "event \<Rightarrow> bool" where
  "is_count GetTransactionCount = True"
| "is_count _ = False"

fun is_send :: "event \<Rightarrow> bool" where
  "is_send (SendRawTransaction _) = True"
| "is_send _ = False"

fun is_wait :: "event \<Rightarrow> bool" where
  "is_wait (WaitForReceipt _) = True"
| "is_wait _ = False"

fun is_sleep :: "event \<Rightarrow> bool" where
  "is_sleep (Sleep _) = True"
| "is_sleep _ = False"

fun is_call :: "event \<Rightarrow> bool" where
  "is_call CallWrapped = True"
| "is_call _ = False"

definition calls_of :: "(event \<Rightarrow> bool) \<Rightarrow> event list \<Rightarrow> nat" where
  "calls_of P tr = length (filter P tr)"

text \<open>
  The provider is outside the program: the outcome of its k-th call of each kind is a
  parameter. A send stands for \<^verbatim>\<open>sign_transaction\<close> followed by
  \<^verbatim>\<open>send_raw_transaction\<close> and \<^verbatim>\<open>hex()\<close>; \<open>to_checksum_address\<close> and \<open>to_wei\<close>
  are the library conversions, which raise on malformed input.
\<close>

record rpc =
  get_transaction_count :: "nat \<Rightarrow> exn + int"
  send_raw_transaction :: "nat \<Rightarrow> transaction_dict \<Rightarrow> exn + string"
  wait_for_transaction_receipt :: "nat \<Rightarrow> string option \<Rightarrow> exn + receipt"
  to_checksum_address :: "string \<Rightarrow> exn + string"
  to_wei :: "real \<Rightarrow> exn + int"

subsection \<open>The retry decorator\<close>

text \<open>
  \<^verbatim>\<open>for attempt in range(max_retries + 1)\<close>: the sleep comes before the call, for
  every attempt but the first. A loop that ends without returning re-raises the last
  exception, and returns \<^verbatim>\<open>None\<close> when there is none.
\<close>

fun backoff_attempts ::
  "nat \<Rightarrow> (event list \<Rightarrow> (exn + 'a) \<times> event list) \<Rightarrow> exn option \<Rightarrow> nat list \<Rightarrow> event list
   \<Rightarrow> (exn + 'a option) \<times> event list" where
  "backoff_attempts max_retries func last_exception [] tr =
     (case last_exception of Some e \<Rightarrow> (Inl e, tr) | None \<Rightarrow> (Inr None, tr))"
| "backoff_attempts max_retries func last_exception (attempt # rest) tr =
     (let tr1 = (if attempt > 0 then tr @ [Sleep (calculate_retry_delay (attempt - 1))] else tr)
      in case func (tr1 @ [CallWrapped]) of
           (Inr v, tr2) \<Rightarrow> (Inr (Some v), tr2)
         | (Inl e, tr2) \<Rightarrow>
             if attempt < max_retries \<and> is_retryable_error e
             then backoff_attempts max_retries func (Some e) rest tr2
             else (Inl e, tr2))"

definition retry_with_backoff ::
  "nat \<Rightarrow> (event list \<Rightarrow> (exn + 'a) \<times> event list) \<Rightarrow> event list
   \<Rightarrow> (exn + 'a option) \<times> event list" where
  "retry_with_backoff max_retries func tr =
     backoff_attempts max_retries func None [0..<max_retries + 1] tr"

subsection \<open>TokenAgent: nonce, send and receipt helpers\<close>

fun get_nonce_attempts ::
  "rpc \<Rightarrow> nat \<Rightarrow> nat list \<Rightarrow> event list \<Rightarrow> (exn + int option) \<times> event list" where
  "get_nonce_attempts w3 max_retries [] tr = (Inr None, tr)"
| "get_nonce_attempts w3 max_retries (attempt # rest) tr =
     (case get_transaction_count w3 (calls_of is_count tr) of
        Inr nonce \<Rightarrow> (Inr (Some nonce), tr @ [GetTransactionCount])
      | Inl e \<Rightarrow>
          if int attempt < int max_retries - 1
          then get_nonce_attempts w3 max_retries rest
                 (tr @ [GetTransactionCount, Sleep (calculate_retry_delay attempt)])
          else (Inl e, tr @ [GetTransactionCount]))"

definition get_nonce_with_retry ::
  "rpc \<Rightarrow> nat \<Rightarrow> event list \<Rightarrow> (exn + int option) \<times> event list" where
  "get_nonce_with_retry w3 max_retries tr =
     get_nonce_attempts w3 max_retries [0..<max_retries] tr"

text \<open>
  \<^verbatim>\<open>int(fee * 1.2)\<close>: the product truncated towards zero (the float product is taken
  as the exact one).
\<close>

definition increase_by_20_percent :: "int \<Rightarrow> int" where
  "increase_by_20_percent fee =
     (if 0 \<le> fee then (fee * 12) div 10 else - ((- fee * 12) div 10))"

definition increase_gas :: "exn \<Rightarrow> transaction_dict \<Rightarrow> transaction_dict" where
  "increase_gas e transaction_dict =
     (let error_msg = lower (message e)
      in if contains ''gas price'' error_msg \<or> contains ''fee'' error_msg
         then transaction_dict
                \<lparr>maxFeePerGas := map_option increase_by_20_percent (maxFeePerGas transaction_dict),
                 maxPriorityFeePerGas :=
                   map_option increase_by_20_percent (maxPriorityFeePerGas transaction_dict)\<rparr>
         else transaction_dict)"

text \<open>
  The body of the \<^verbatim>\<open>try\<close> of one send attempt: from the second attempt on the nonce
  is fetched afresh first (with the default of three tries), and an exception of that
  fetch is caught by the same handler as an exception of the send.
\<close>

definition send_attempt ::
  "rpc \<Rightarrow> nat \<Rightarrow> transaction_dict \<Rightarrow> event list
   \<Rightarrow> (exn + string) \<times> transaction_dict \<times> event list" where
  "send_attempt w3 attempt transaction_dict tr =
     (case (if attempt > 0
            then (case get_nonce_with_retry w3 3 tr of
                    (Inl e, tr1) \<Rightarrow> (Inl e, transaction_dict, tr1)
                  | (Inr nonce, tr1) \<Rightarrow> (Inr (), transaction_dict\<lparr>tx_nonce := nonce\<rparr>, tr1))
            else (Inr (), transaction_dict, tr)) of
        (Inl e, tx1, tr1) \<Rightarrow> (Inl e, tx1, tr1)
      | (Inr _, tx1, tr1) \<Rightarrow>
          (send_raw_transaction w3 (calls_of is_send tr1) tx1, tx1,
           tr1 @ [SendRawTransaction tx1]))"

fun send_attempts ::
  "rpc \<Rightarrow> nat \<Rightarrow> exn option \<Rightarrow> nat list \<Rightarrow> transaction_dict \<Rightarrow> event list
   \<Rightarrow> (exn + string option) \<times> transaction_dict \<times> event list" where
  "send_attempts w3 max_retries last_error [] transaction_dict tr =
     (case last_error of
        Some e \<Rightarrow> (Inl e, transaction_dict, tr)
      | None \<Rightarrow> (Inr None, transaction_dict, tr))"
| "send_attempts w3 max_retries last_error (attempt # rest) transaction_dict tr =
     (case send_attempt w3 attempt transaction_dict tr of
        (Inr tx_hash_hex, tx1, tr1) \<Rightarrow> (Inr (Some tx_hash_hex), tx1, tr1)
      | (Inl e, tx1, tr1) \<Rightarrow>
          if int attempt < int max_retries - 1 \<and> is_retryable_error e
          then send_attempts w3 max_retries (Some e) rest (increase_gas e tx1)
                 (tr1 @ [Sleep (calculate_retry_delay attempt)])
          else (Inl e, tx1, tr1))"

definition send_transaction_with_retry ::
  "rpc \<Rightarrow> transaction_dict \<Rightarrow> nat \<Rightarrow> event list
   \<Rightarrow> (exn + string option) \<times> transaction_dict \<times> event list" where
  "send_transaction_with_retry w3 transaction_dict max_retries tr =
     send_attempts w3 max_retries None [0..<max_retries] transaction_dict tr"

text \<open>
  Waiting for the receipt: only \<^verbatim>\<open>TimeExhausted\<close> is retried, and there is no sleep
  between two waits; \<^verbatim>\<open>TransactionNotFound\<close> is re-raised and any other exception is
  not caught at all.
\<close>

fun wait_attempts ::
  "rpc \<Rightarrow> nat \<Rightarrow> nat list \<Rightarrow> string option \<Rightarrow> event list
   \<Rightarrow> (exn + receipt option) \<times> event list" where
  "wait_attempts w3 max_retries [] tx_hash tr = (Inr None, tr)"
| "wait_attempts w3 max_retries (attempt # rest) tx_hash tr =
     (case wait_for_transaction_receipt w3 (calls_of is_wait tr) tx_hash of
        Inr r \<Rightarrow> (Inr (Some r), tr @ [WaitForReceipt tx_hash])
      | Inl e \<Rightarrow>
          if exc_class e = TimeExhausted
          then (if int attempt < int max_retries - 1
                then wait_attempts w3 max_retries rest tx_hash (tr @ [WaitForReceipt tx_hash])
                else (Inl e, tr @ [WaitForReceipt tx_hash]))
          else (Inl e, tr @ [WaitForReceipt tx_hash]))"

definition wait_for_receipt_with_retry ::
  "rpc \<Rightarrow> string option \<Rightarrow> nat \<Rightarrow> event list \<Rightarrow> (exn + receipt option) \<times> event list" where
  "wait_for_receipt_with_retry w3 tx_hash max_retries tr =
     wait_attempts w3 max_retries [0..<max_retries] tx_hash tr"

subsection \<open>TokenAgent.process\_mint\<close>

text \<open>
  The row of the transactions table (its timestamps are left out: nothing reads them)
  and the part of the database that minting touches.
\<close>

record tx_record =
  rec_user_id :: string
  rec_tx_type :: string
  rec_amount :: real
  rec_reason :: string
  rec_status :: string
  rec_blockchain_tx :: "string option"
  rec_gas_used :: "int option"

record mint_world =
  transactions :: "string \<rightharpoonup> tx_record"
  users :: "string \<rightharpoonup> string"
  trace :: "event list"

definition update_record :: "string \<Rightarrow> (tx_record \<Rightarrow> tx_record) \<Rightarrow> mint_world \<Rightarrow> mint_world" where
  "update_record tx_id f w =
     w\<lparr>transactions := (transactions w)(tx_id := map_option f (transactions w tx_id))\<rparr>"

text \<open>
  The statements of \<^verbatim>\<open>process_mint\<close> after the pending record is committed, up to the
  \<^verbatim>\<open>return\<close>; an exception leaves them with \<open>Inl\<close>. The fee fields are
  \<^verbatim>\<open>to_wei('0.001', 'gwei')\<close> and \<^verbatim>\<open>to_wei('0.0001', 'gwei')\<close>.
\<close>

definition mint_steps :: "rpc \<Rightarrow> string \<Rightarrow> mint_world \<Rightarrow> (exn + string option) \<times> mint_world" where
  "mint_steps w3 tx_id w =
     (case get_nonce_with_retry w3 3 (trace w) of
        (Inl e, tr1) \<Rightarrow> (Inl e, w\<lparr>trace := tr1\<rparr>)
      | (Inr nonce, tr1) \<Rightarrow>
          (let mint_tx = \<lparr>tx_nonce = nonce, maxFeePerGas = Some 1000000,
                          maxPriorityFeePerGas = Some 100000\<rparr>
           in case send_transaction_with_retry w3 mint_tx 3 tr1 of
                (Inl e, tx2, tr2) \<Rightarrow> (Inl e, w\<lparr>trace := tr2\<rparr>)
              | (Inr tx_hash_hex, tx2, tr2) \<Rightarrow>
                  (let w2 = update_record tx_id
                              (\<lambda>r. r\<lparr>rec_blockchain_tx := tx_hash_hex, rec_status := ''confirming''\<rparr>)
                              (w\<lparr>trace := tr2\<rparr>)
                   in case wait_for_receipt_with_retry w3 tx_hash_hex 2 (trace w2) of
                        (Inl e, tr3) \<Rightarrow> (Inl e, w2\<lparr>trace := tr3\<rparr>)
                      | (Inr None, tr3) \<Rightarrow>
                          (Inl (Exn TypeError ''NoneType object is not subscriptable''),
                           w2\<lparr>trace := tr3\<rparr>)
                      | (Inr (Some receipt), tr3) \<Rightarrow>
                          if receipt_status receipt = 1
                          then (Inr tx_hash_hex,
                                update_record tx_id
                                  (\<lambda>r. r\<lparr>rec_status := ''confirmed'',
                                         rec_gas_used := Some (gasUsed receipt)\<rparr>)
                                  (w2\<lparr>trace := tr3\<rparr>))
                          else (Inr None,
                                update_record tx_id (\<lambda>r. r\<lparr>rec_status := ''failed''\<rparr>)
                                  (w2\<lparr>trace := tr3\<rparr>)))))"

definition process_mint ::
  "rpc \<Rightarrow> string \<Rightarrow> string \<Rightarrow> real \<Rightarrow> string \<Rightarrow> mint_world \<Rightarrow> string option \<times> mint_world" where
  "process_mint w3 tx_id user_id amount reason w =
     (case transactions w tx_id of
        Some existing_tx \<Rightarrow> (rec_blockchain_tx existing_tx, w)
      | None \<Rightarrow>
          (case users w user_id of
             None \<Rightarrow> (None, w)
           | Some user_wallet \<Rightarrow>
               (case to_checksum_address w3 user_wallet of
                  Inl e \<Rightarrow> (None, w)
                | Inr wallet_address \<Rightarrow>
                    (case to_wei w3 amount of
                       Inl e \<Rightarrow> (None, w)
                     | Inr amount_wei \<Rightarrow>
                         (let tx_record = \<lparr>rec_user_id = user_id, rec_tx_type = ''mint'',
                                           rec_amount = amount, rec_reason = reason,
                                           rec_status = ''pending'', rec_blockchain_tx = None,
                                           rec_gas_used = None\<rparr>;
                              w1 = w\<lparr>transactions := (transactions w)(tx_id \<mapsto> tx_record)\<rparr>
                          in case mint_steps w3 tx_id w1 of
                               (Inl e, w2) \<Rightarrow>
                                 (None, update_record tx_id (\<lambda>r. r\<lparr>rec_status := ''failed''\<rparr>) w2)
                             | (Inr r, w2) \<Rightarrow> (r, w2))))))"

subsection \<open>Concrete providers and inputs\<close>

text \<open>
  A provider whose sends always time out and whose receipts are never mined, a provider
  whose sends are refused for lack of funds, a wrapped function that always times out,
  and a database with one user.
\<close>

definition failing_rpc :: rpc where
  "failing_rpc =
     \<lparr>get_transaction_count = (\<lambda>k. Inr 7),
      send_raw_transaction = (\<lambda>k tx. Inl (Exn Exception ''Request Timeout'')),
      wait_for_transaction_receipt = (\<lambda>k h. Inl (Exn TimeExhausted ''not mined'')),
      to_checksum_address = Inr,
      to_wei = (\<lambda>amount. Inr \<lfloor>amount * 10 ^ 18\<rfloor>)\<rparr>"

definition broke_rpc :: rpc where
  "broke_rpc =
     \<lparr>get_transaction_count = (\<lambda>k. Inr 7),
      send_raw_transaction = (\<lambda>k tx. Inl (Exn Exception ''insufficient funds'')),
      wait_for_transaction_receipt = (\<lambda>k h. Inl (Exn TimeExhausted ''not mined'')),
      to_checksum_address = Inr,
      to_wei = (\<lambda>amount. Inr \<lfloor>amount * 10 ^ 18\<rfloor>)\<rparr>"

definition tx0 :: transaction_dict where
  "tx0 = \<lparr>tx_nonce = Some 5, maxFeePerGas = Some 1000000, maxPriorityFeePerGas = Some 100000\<rparr>"

definition always_timeout :: "event list \<Rightarrow> (exn + unit) \<times> event list" where
  "always_timeout tr = (Inl (Exn Exception ''Request Timeout''), tr)"

definition mint_world0 :: mint_world where
  "mint_world0 =
     \<lparr>transactions = Map.empty,
      users = [''alice'' \<mapsto> ''0x00000000000000000000000000000000000000aa''],
      trace = []\<rparr>"

section \<open>The nonce manager (services/nonce\_manager.py)\<close>

subsection \<open>The coordination store\<close>

text \<open>
  The manager stores two kinds of strings: \<^verbatim>\<open>str(nonce)\<close> of an integer under the nonce
  key and \<^verbatim>\<open>str(time.time())\<close> of a float under the lock key. The two renderings are
  injective and never coincide (the text of a float is not an integer literal).
\<close>

datatype rstr = StrOfInt int | StrOfFloat real

text \<open>\<^verbatim>\<open>int(s)\<close> on such a string.\<close>

definition py_int :: "rstr \<Rightarrow> exn + int" where
  "py_int s =
     (case s of
        StrOfInt n \<Rightarrow> Inr n
      | StrOfFloat t \<Rightarrow> Inl (Exn ValueError ''invalid literal for int() with base 10''))"

text \<open>The commands that write to the store, logged in the order they are issued.\<close>

datatype redis_cmd = SET string rstr | SET_NX_EX string rstr int | DEL string

text \<open>
  The world of the manager: the clock (\<^verbatim>\<open>time.time()\<close>, in seconds), the store (each key
  with its value and, when it has one, the time at which it expires), the chain's
  transaction count of each wallet (or the exception the query raises), and the log of
  the write commands. \<^verbatim>\<open>time.sleep\<close> advances the clock; the other statements take no
  time.
\<close>

record nonce_world =
  clock :: real
  redis :: "string \<rightharpoonup> rstr \<times> real option"
  chain_nonce :: "string \<Rightarrow> exn + int"
  commands :: "redis_cmd list"

definition sleep :: "real \<Rightarrow> nonce_world \<Rightarrow> nonce_world" where
  "sleep seconds w = w\<lparr>clock := clock w + seconds\<rparr>"

text \<open>\<^verbatim>\<open>GET\<close>: a key whose expiry time has come is absent.\<close>

definition redis_get :: "string \<Rightarrow> nonce_world \<Rightarrow> rstr option" where
  "redis_get key w =
     (case redis w key of
        None \<Rightarrow> None
      | Some (v, None) \<Rightarrow> Some v
      | Some (v, Some deadline) \<Rightarrow> if clock w < deadline then Some v else None)"

text \<open>\<^verbatim>\<open>SET key value\<close>: overwrites, and the key has no expiry afterwards.\<close>

definition redis_set :: "string \<Rightarrow> rstr \<Rightarrow> nonce_world \<Rightarrow> nonce_world" where
  "redis_set key v w =
     w\<lparr>redis := (redis w)(key \<mapsto> (v, None)), commands := commands w @ [SET key v]\<rparr>"

text \<open>
  \<^verbatim>\<open>SET key value NX EX seconds\<close>: writes only when the key is absent, and answers
  whether it wrote; the server rejects an expiry that is not positive.
\<close>

definition redis_set_nx_ex ::
  "string \<Rightarrow> rstr \<Rightarrow> int \<Rightarrow> nonce_world \<Rightarrow> (exn + bool) \<times> nonce_world" where
  "redis_set_nx_ex key v ex w =
     (if ex \<le> 0 then (Inl (Exn ResponseError ''invalid expire time in set''), w)
      else if redis_get key w = None
      then (Inr True,
            w\<lparr>redis := (redis w)(key \<mapsto> (v, Some (clock w + real_of_int ex))),
              commands := commands w @ [SET_NX_EX key v ex]\<rparr>)
      else (Inr False, w))"

definition redis_delete :: "string \<Rightarrow> nonce_world \<Rightarrow> nonce_world" where
  "redis_delete key w =
     w\<lparr>redis := (redis w)(key := None), commands := commands w @ [DEL key]\<rparr>"

subsection \<open>NonceManager\<close>

record NonceManager =
  lock_timeout :: int

definition get_nonce_key :: "string \<Rightarrow> string" where
  "get_nonce_key wallet_address = ''nonce:'' @ lower wallet_address"

definition get_lock_key :: "string \<Rightarrow> string" where
  "get_lock_key wallet_address = ''nonce:lock:'' @ lower wallet_address"

text \<open>\<^verbatim>\<open>timeout or self.lock_timeout\<close>: an absent or zero timeout gives the default.\<close>

definition lease_seconds :: "NonceManager \<Rightarrow> int option \<Rightarrow> int" where
  "lease_seconds self timeout =
     (case timeout of
        None \<Rightarrow> lock_timeout self
      | Some t \<Rightarrow> if t = 0 then lock_timeout self else t)"

definition lock_failure :: "string \<Rightarrow> exn" where
  "lock_failure wallet_address =
     Exn RuntimeError
       (''Failed to acquire nonce lock for '' @ wallet_address @ '' after 10 attempts'')"

text \<open>
  The attempts of \<^verbatim>\<open>acquire_lock\<close> up to its \<^verbatim>\<open>yield\<close>: \<open>Inr True\<close> is the yield, an
  exhausted loop raises. After each failed attempt, also the last, the loop sleeps and
  doubles the delay up to five seconds.
\<close>

fun lock_attempts ::
  "string \<Rightarrow> rstr \<Rightarrow> int \<Rightarrow> string \<Rightarrow> nat list \<Rightarrow> real \<Rightarrow> nonce_world
   \<Rightarrow> (exn + bool) \<times> nonce_world" where
  "lock_attempts lock_key lock_id timeout wallet_address [] retry_delay w =
     (Inl (lock_failure wallet_address), w)"
| "lock_attempts lock_key lock_id timeout wallet_address (attempt # rest) retry_delay w =
     (case redis_set_nx_ex lock_key lock_id timeout w of
        (Inl e, w1) \<Rightarrow> (Inl e, w1)
      | (Inr acquired, w1) \<Rightarrow>
          if acquired then (Inr True, w1)
          else lock_attempts lock_key lock_id timeout wallet_address rest
                 (min (retry_delay * 2) 5) (sleep retry_delay w1))"

definition lock_id_at :: "nonce_world \<Rightarrow> rstr" where
  "lock_id_at w = StrOfFloat (clock w)"

text \<open>Entering the context manager: the code before the \<^verbatim>\<open>yield\<close>.\<close>

definition lock_enter ::
  "NonceManager \<Rightarrow> string \<Rightarrow> int option \<Rightarrow> nonce_world \<Rightarrow> (exn + bool) \<times> nonce_world" where
  "lock_enter self wallet_address timeout w =
     lock_attempts (get_lock_key wallet_address) (lock_id_at w) (lease_seconds self timeout)
       wallet_address [0..<10] (1 / 10) w"

text \<open>Leaving it: the \<^verbatim>\<open>finally\<close> block.\<close>

definition lock_exit :: "string \<Rightarrow> rstr \<Rightarrow> nonce_world \<Rightarrow> nonce_world" where
  "lock_exit lock_key lock_id w =
     (let stored_lock = redis_get lock_key w
      in if stored_lock = Some lock_id then redis_delete lock_key w else w)"

text \<open>
  \<^verbatim>\<open>with self.acquire_lock(wallet_address, timeout): body\<close>. The body is run only after
  a successful enter; whether it returns or raises (\<open>Inl\<close>), the exit block runs and the
  body's outcome is passed on.
\<close>

definition acquire_lock ::
  "NonceManager \<Rightarrow> string \<Rightarrow> int option \<Rightarrow> (nonce_world \<Rightarrow> (exn + 'a) \<times> nonce_world)
   \<Rightarrow> nonce_world \<Rightarrow> (exn + 'a) \<times> nonce_world" where
  "acquire_lock self wallet_address timeout body w =
     (case lock_enter self wallet_address timeout w of
        (Inl e, w1) \<Rightarrow> (Inl e, w1)
      | (Inr _, w1) \<Rightarrow>
          (case body w1 of
             (r, w2) \<Rightarrow> (r, lock_exit (get_lock_key wallet_address) (lock_id_at w) w2)))"

definition get_nonce_body ::
  "string \<Rightarrow> bool \<Rightarrow> nonce_world \<Rightarrow> (exn + int) \<times> nonce_world" where
  "get_nonce_body wallet_address force_sync w =
     (let nonce_key = get_nonce_key wallet_address;
          stored_nonce = redis_get nonce_key w
      in case chain_nonce w wallet_address of
           Inl e \<Rightarrow> (Inl e, w)
         | Inr blockchain_nonce \<Rightarrow>
             if stored_nonce = None \<or> force_sync
             then (Inr blockchain_nonce, redis_set nonce_key (StrOfInt blockchain_nonce) w)
             else (case py_int (the stored_nonce) of
                     Inl e \<Rightarrow> (Inl e, w)
                   | Inr stored \<Rightarrow>
                       (let nonce = max stored blockchain_nonce
                        in if nonce \<noteq> stored
                           then (Inr nonce, redis_set nonce_key (StrOfInt nonce) w)
                           else (Inr nonce, w))))"

definition get_nonce ::
  "NonceManager \<Rightarrow> string \<Rightarrow> bool \<Rightarrow> nonce_world \<Rightarrow> (exn + int) \<times> nonce_world" where
  "get_nonce self wallet_address force_sync w =
     (let wallet_address = lower wallet_address
      in acquire_lock self wallet_address None (get_nonce_body wallet_address force_sync) w)"

definition reserve_nonce ::
  "NonceManager \<Rightarrow> string \<Rightarrow> nonce_world \<Rightarrow> (exn + int) \<times> nonce_world" where
  "reserve_nonce self wallet_address w =
     (let wallet_address = lower wallet_address;
          nonce_key = get_nonce_key wallet_address
      in acquire_lock self wallet_address None
           (\<lambda>w1. case get_nonce self wallet_address False w1 of
                    (Inl e, w2) \<Rightarrow> (Inl e, w2)
                  | (Inr current_nonce, w2) \<Rightarrow>
                      (let new_nonce = current_nonce + 1
                       in (Inr current_nonce, redis_set nonce_key (StrOfInt new_nonce) w2)))
           w)"

text \<open>Calling \<open>reserve_nonce\<close> several times in a row, stopping at the first exception.\<close>

fun reserve_many ::
  "NonceManager \<Rightarrow> string \<Rightarrow> nat \<Rightarrow> nonce_world \<Rightarrow> (exn + int list) \<times> nonce_world" where
  "reserve_many self wallet_address 0 w = (Inr [], w)"
| "reserve_many self wallet_address (Suc n) w =
     (case reserve_nonce self wallet_address w of
        (Inl e, w1) \<Rightarrow> (Inl e, w1)
      | (Inr nonce, w1) \<Rightarrow>
          (case reserve_many self wallet_address n w1 of
             (Inl e, w2) \<Rightarrow> (Inl e, w2)
           | (Inr nonces, w2) \<Rightarrow> (Inr (nonce # nonces), w2)))"

subsection \<open>Concrete managers and worlds\<close>

text \<open>
  The manager with the default lock timeout of 30 seconds and one with a timeout of 5
  seconds; a world with an empty store in which the chain reports 10 transactions for
  every wallet, the same world with the nonce 12 stored, and the same world with the
  lock held by someone else until the time 1025; a second holder's lock identifier; a
  protected body that outlives the lease, after which the second holder has taken the
  lock; and a protected body that raises.
\<close>

definition default_manager :: NonceManager where
  "default_manager = \<lparr>lock_timeout = 30\<rparr>"

definition short_manager :: NonceManager where
  "short_manager = \<lparr>lock_timeout = 5\<rparr>"

definition fresh_world :: nonce_world where
  "fresh_world =
     \<lparr>clock = 1000, redis = Map.empty, chain_nonce = (\<lambda>wallet. Inr 10), commands = []\<rparr>"

definition wallet_A :: string where
  "wallet_A = ''0xAAAAAAAAAAAAAAAAAAAAAAAAAAAAAAAAAAAAAAAA''"

definition other_holder :: rstr where
  "other_holder = StrOfFloat 1040"

definition slow_body :: "nonce_world \<Rightarrow> (exn + unit) \<times> nonce_world" where
  "slow_body w =
     (Inr (), snd (redis_set_nx_ex (get_lock_key wallet_A) other_holder 30 (sleep 40 w)))"

definition raising_body :: "nonce_world \<Rightarrow> (exn + unit) \<times> nonce_world" where
  "raising_body w = (Inl (Exn ValueError ''boom''), w)"

definition stored_world :: nonce_world where
  "stored_world =
     fresh_world\<lparr>redis := [get_nonce_key wallet_A \<mapsto> (StrOfInt 12, None)]\<rparr>"

definition held_world :: nonce_world where
  "held_world =
     fresh_world\<lparr>redis := [get_lock_key wallet_A \<mapsto> (StrOfFloat 995, Some 1025)]\<rparr>"

section \<open>The circuit breaker (middleware/circuit\_breaker.py)\<close>

datatype CircuitState = CLOSED | OPEN | HALF_OPEN

definition state_value :: "CircuitState \<Rightarrow> string" where
  "state_value state =
     (case state of CLOSED \<Rightarrow> ''closed'' | OPEN \<Rightarrow> ''open'' | HALF_OPEN \<Rightarrow> ''half_open'')"

text \<open>
  The configuration; \<open>expected_exception\<close> is the test \<^verbatim>\<open>isinstance(e, expected_exception)\<close>
  of the \<^verbatim>\<open>except\<close> clause.
\<close>

record 'e CircuitBreakerConfig =
  failure_threshold :: int
  success_threshold :: int
  timeout_seconds :: int
  expected_exception :: "'e \<Rightarrow> bool"

record 'e CircuitBreaker =
  name :: string
  config :: "'e CircuitBreakerConfig"

text \<open>
  The four keys of one breaker in the store, each absent or holding a value, and the
  clock \<^verbatim>\<open>time.time()\<close>. The counters are created by \<^verbatim>\<open>INCR\<close> on an absent key and
  only ever incremented or deleted, so they are natural numbers; the time of the last
  failure is stored as \<^verbatim>\<open>str(time.time())\<close> and read back with \<^verbatim>\<open>float\<close>.
\<close>

record breaker_store =
  now :: real
  state_key :: "CircuitState option"
  failures_key :: "nat option"
  successes_key :: "nat option"
  last_failure_key :: "real option"

text \<open>
  What \<open>call\<close> raises: its own rejection, carrying the service name and the details
  \<^verbatim>\<open>failure_count\<close> and \<^verbatim>\<open>state\<close>, or the exception of the wrapped function.
\<close>

datatype 'e breaker_exn = CircuitBreakerOpenError string nat string | Raised 'e

definition get_state :: "breaker_store \<Rightarrow> CircuitState" where
  "get_state s = (case state_key s of None \<Rightarrow> CLOSED | Some state \<Rightarrow> state)"

definition set_state :: "CircuitState \<Rightarrow> breaker_store \<Rightarrow> breaker_store" where
  "set_state state s = s\<lparr>state_key := Some state\<rparr>"

definition get_failure_count :: "breaker_store \<Rightarrow> nat" where
  "get_failure_count s = (case failures_key s of None \<Rightarrow> 0 | Some count \<Rightarrow> count)"

definition increment_failure_count :: "breaker_store \<Rightarrow> nat \<times> breaker_store" where
  "increment_failure_count s =
     (let count = (case failures_key s of None \<Rightarrow> 1 | Some c \<Rightarrow> c + 1)
      in (count, s\<lparr>failures_key := Some count, last_failure_key := Some (now s)\<rparr>))"

definition reset_failure_count :: "breaker_store \<Rightarrow> breaker_store" where
  "reset_failure_count s = s\<lparr>failures_key := None\<rparr>"

definition get_success_count :: "breaker_store \<Rightarrow> nat" where
  "get_success_count s = (case successes_key s of None \<Rightarrow> 0 | Some count \<Rightarrow> count)"

definition increment_success_count :: "breaker_store \<Rightarrow> nat \<times> breaker_store" where
  "increment_success_count s =
     (let count = (case successes_key s of None \<Rightarrow> 1 | Some c \<Rightarrow> c + 1)
      in (count, s\<lparr>successes_key := Some count\<rparr>))"

definition reset_success_count :: "breaker_store \<Rightarrow> breaker_store" where
  "reset_success_count s = s\<lparr>successes_key := None\<rparr>"

definition should_attempt_reset :: "'e CircuitBreaker \<Rightarrow> breaker_store \<Rightarrow> bool" where
  "should_attempt_reset self s =
     (case last_failure_key s of
        None \<Rightarrow> True
      | Some last_failure_time \<Rightarrow>
          (let time_since_failure = now s - last_failure_time
           in time_since_failure \<ge> real_of_int (timeout_seconds (config self))))"

definition on_success :: "'e CircuitBreaker \<Rightarrow> breaker_store \<Rightarrow> breaker_store" where
  "on_success self s =
     (let state = get_state s
      in if state = HALF_OPEN
         then (case increment_success_count s of
                 (success_count, s1) \<Rightarrow>
                   if int success_count \<ge> success_threshold (config self)
                   then reset_success_count (reset_failure_count (set_state CLOSED s1))
                   else s1)
         else if state = CLOSED then reset_failure_count s
         else s)"

definition on_failure :: "'e CircuitBreaker \<Rightarrow> 'e \<Rightarrow> breaker_store \<Rightarrow> breaker_store" where
  "on_failure self exception s =
     (let state = get_state s
      in if state = HALF_OPEN
         then snd (increment_failure_count (reset_success_count (set_state OPEN s)))
         else if state = CLOSED
         then (case increment_failure_count s of
                 (failure_count, s1) \<Rightarrow>
                   if int failure_count \<ge> failure_threshold (config self)
                   then set_state OPEN s1
                   else s1)
         else s)"

text \<open>
  The wrapped function may read the clock and the store and change them; it returns a
  value or raises. An exception outside \<open>expected_exception\<close> passes through \<open>call\<close>
  without being counted.
\<close>

definition attempt_call ::
  "'e CircuitBreaker \<Rightarrow> (breaker_store \<Rightarrow> ('e + 'a) \<times> breaker_store) \<Rightarrow> breaker_store
   \<Rightarrow> ('e breaker_exn + 'a) \<times> breaker_store" where
  "attempt_call self func s =
     (case func s of
        (Inr result, s1) \<Rightarrow> (Inr result, on_success self s1)
      | (Inl e, s1) \<Rightarrow>
          if expected_exception (config self) e
          then (Inl (Raised e), on_failure self e s1)
          else (Inl (Raised e), s1))"

definition call ::
  "'e CircuitBreaker \<Rightarrow> (breaker_store \<Rightarrow> ('e + 'a) \<times> breaker_store) \<Rightarrow> breaker_store
   \<Rightarrow> ('e breaker_exn + 'a) \<times> breaker_store" where
  "call self func s =
     (let state = get_state s
      in if state = OPEN
         then (if should_attempt_reset self s
               then attempt_call self func (reset_success_count (set_state HALF_OPEN s))
               else (Inl (CircuitBreakerOpenError (name self) (get_failure_count s)
                            (state_value state)), s))
         else attempt_call self func s)"

text \<open>The breaker is closed and both of its counters are reset (their keys are absent).\<close>

definition closed_after_recovery :: "breaker_store \<Rightarrow> bool" where
  "closed_after_recovery s \<longleftrightarrow>
     get_state s = CLOSED \<and> failures_key s = None \<and> successes_key s = None"

subsection \<open>A concrete breaker\<close>

text \<open>
  The breaker of the chain provider with the default thresholds (5 failures, 2
  successes, 30 seconds), counting every exception; a store in which it has been open
  since the fifth failure at the time 100, seen at the time 110; a half-open store; a
  closed store with four failures counted; and two wrapped functions, one returning a
  hash and one raising a connection error, neither touching the store.
\<close>

definition rpc_breaker :: "exn CircuitBreaker" where
  "rpc_breaker =
     \<lparr>name = ''blockchain-rpc'',
      config = \<lparr>failure_threshold = 5, success_threshold = 2, timeout_seconds = 30,
                expected_exception = (\<lambda>e. True)\<rparr>\<rparr>"

definition open_store :: breaker_store where
  "open_store =
     \<lparr>now = 110, state_key = Some OPEN, failures_key = Some 5, successes_key = None,
      last_failure_key = Some 100\<rparr>"

definition half_open_store :: breaker_store where
  "half_open_store =
     \<lparr>now = 140, state_key = Some HALF_OPEN, failures_key = Some 5, successes_key = None,
      last_failure_key = Some 100\<rparr>"

definition closed_store :: breaker_store where
  "closed_store =
     \<lparr>now = 50, state_key = None, failures_key = Some 4, successes_key = None,
      last_failure_key = Some 40\<rparr>"

definition succeeding :: "breaker_store \<Rightarrow> (exn + string) \<times> breaker_store" where
  "succeeding s = (Inr ''0xhash'', s)"

definition failing :: "breaker_store \<Rightarrow> (exn + string) \<times> breaker_store" where
  "failing s = (Inl (Exn ConnectionError ''connection refused''), s)"

section \<open>The idempotency layer (middleware/idempotency.py)\<close>

definition DEFAULT_TTL :: int where
  "DEFAULT_TTL = 86400"

definition generate_key :: "string \<Rightarrow> string \<Rightarrow> string" where
  "generate_key idempotency_key path = ''idempotency:'' @ path @ '':'' @ idempotency_key"

text \<open>
  The dictionary that is cached, \<^verbatim>\<open>{"body": ..., "status_code": ...}\<close>; the status
  code is read with \<^verbatim>\<open>cached.get("status_code", 200)\<close>, so it may be absent.
\<close>

record 'b cached_response =
  cached_body :: 'b
  cached_status_code :: "int option"

text \<open>
  \<^verbatim>\<open>json.dumps\<close> and \<^verbatim>\<open>json.loads\<close> on such a dictionary are parameters; \<open>None\<close>
  stands for the exception they raise (a body that is not serialisable, a text that is
  not JSON).
\<close>

record 'b json_codec =
  dumps :: "'b cached_response \<Rightarrow> string option"
  loads :: "string \<Rightarrow> 'b cached_response option"

text \<open>
  What a handler returns: a \<^verbatim>\<open>dict\<close>, any other object, or a \<^verbatim>\<open>JSONResponse\<close> with
  its content and status code.
\<close>

datatype ('b, 'o) response = DictResult 'b | OtherResult 'o | JSONResponse 'b int

text \<open>
  The world of the layer: the clock, whether \<^verbatim>\<open>get_redis_client()\<close> yields a working
  client, the cache (each key with its text and the time at which it expires), and
  the number of side effects the handlers have carried out so far; the layer itself
  never touches that number.
\<close>

record idem_world =
  wall_clock :: real
  client_up :: bool
  cache :: "string \<rightharpoonup> string \<times> real"
  effects :: nat

text \<open>
  \<^verbatim>\<open>client.setex(key, ttl, json.dumps(response_data))\<close> inside \<^verbatim>\<open>try\<close>: an exception of
  the serialisation or of the server (which rejects a time to live that is not positive)
  is caught and gives \<^verbatim>\<open>False\<close>.
\<close>

definition store_response ::
  "'b json_codec \<Rightarrow> string \<Rightarrow> 'b cached_response \<Rightarrow> int \<Rightarrow> idem_world \<Rightarrow> bool \<times> idem_world" where
  "store_response codec key response_data ttl w =
     (if \<not> client_up w then (False, w)
      else (case dumps codec response_data of
              None \<Rightarrow> (False, w)
            | Some text \<Rightarrow>
                if ttl \<le> 0 then (False, w)
                else (True, w\<lparr>cache := (cache w)(key \<mapsto> (text, wall_clock w + real_of_int ttl))\<rparr>)))"

text \<open>
  \<^verbatim>\<open>cached = client.get(key); if cached: return json.loads(cached)\<close>: an expired key, an
  empty text and an exception all give \<^verbatim>\<open>None\<close>.
\<close>

definition get_cached_response ::
  "'b json_codec \<Rightarrow> string \<Rightarrow> idem_world \<Rightarrow> 'b cached_response option" where
  "get_cached_response codec key w =
     (if \<not> client_up w then None
      else (case cache w key of
              None \<Rightarrow> None
            | Some (cached, expires) \<Rightarrow>
                if wall_clock w < expires \<and> cached \<noteq> [] then loads codec cached else None))"

text \<open>
  The wrapper made by the decorator \<^verbatim>\<open>idempotent(ttl)\<close>, called with the header value
  and the request's path (\<open>None\<close> when there is no request). The handler acts on the
  world and returns a response or raises.
\<close>

definition idempotent ::
  "int \<Rightarrow> 'b json_codec \<Rightarrow> (idem_world \<Rightarrow> (exn + ('b, 'o) response) \<times> idem_world)
   \<Rightarrow> string option \<Rightarrow> string option \<Rightarrow> idem_world
   \<Rightarrow> (exn + ('b, 'o) response) \<times> idem_world" where
  "idempotent ttl codec func idempotency_key request_path w =
     (if idempotency_key = None \<or> idempotency_key = Some [] then func w
      else
        (let cache_key = generate_key (the idempotency_key)
                           (case request_path of Some path \<Rightarrow> path | None \<Rightarrow> ''unknown'')
         in case get_cached_response codec cache_key w of
              Some cached \<Rightarrow>
                (Inr (JSONResponse (cached_body cached)
                        (case cached_status_code cached of Some code \<Rightarrow> code | None \<Rightarrow> 200)), w)
            | None \<Rightarrow>
                (case func w of
                   (Inl e, w1) \<Rightarrow> (Inl e, w1)
                 | (Inr result, w1) \<Rightarrow>
                     (case result of
                        DictResult d \<Rightarrow>
                          (Inr result,
                           snd (store_response codec cache_key
                                  \<lparr>cached_body = d, cached_status_code = Some 200\<rparr> ttl w1))
                      | _ \<Rightarrow> (Inr result, w1)))))"

subsection \<open>Concrete handlers\<close>

text \<open>
  A codec for bodies that are texts already (the cached text is the body prefixed with
  its status code marker); a world with a working, empty cache; a handler that carries
  out one side effect and returns the running count as an object that is not a
  dictionary; a handler that does the same and returns a dictionary; and the world
  after that handler has run once under the key "mint-7f3a9c1b" with a time to live of
  3600 seconds.
\<close>

definition text_codec :: "string json_codec" where
  "text_codec =
     \<lparr>dumps = (\<lambda>r. if cached_status_code r = Some 200 then Some (''200:'' @ cached_body r)
                    else None),
      loads = (\<lambda>t. if take 4 t = ''200:''
                    then Some \<lparr>cached_body = drop 4 t, cached_status_code = Some 200\<rparr>
                    else None)\<rparr>"

definition empty_cache_world :: idem_world where
  "empty_cache_world = \<lparr>wall_clock = 0, client_up = True, cache = Map.empty, effects = 0\<rparr>"

definition counting_handler ::
  "idem_world \<Rightarrow> (exn + (string, nat) response) \<times> idem_world" where
  "counting_handler w = (Inr (OtherResult (effects w + 1)), w\<lparr>effects := effects w + 1\<rparr>)"

definition mint_handler ::
  "idem_world \<Rightarrow> (exn + (string, nat) response) \<times> idem_world" where
  "mint_handler w = (Inr (DictResult ''queued''), w\<lparr>effects := effects w + 1\<rparr>)"

definition cached_world :: idem_world where
  "cached_world =
     \<lparr>wall_clock = 0, client_up = True,
      cache = [''idempotency:/token/mint:mint-7f3a9c1b'' \<mapsto> (''200:queued'', 3600)],
      effects = 1\<rparr>"

section \<open>Properties of the retry policy\<close>

text \<open>
  C9. With base delay 2, multiplier 2 and maximum 30, the delays computed for the
  attempts 0, 1, 2, 3, 4 are 2, 4, 8, 16 and 30 seconds: the value 32 of attempt 4 is
  capped at 30.
\<close>

theorem C9_backoff_sequence:
  "map calculate_retry_delay [0, 1, 2, 3, 4] = [2, 4, 8, 16, 30]
   \<and> BASE_DELAY * BACKOFF_MULTIPLIER ^ 4 = 32"
  by (simp add: calculate_retry_delay_def BASE_DELAY_def BACKOFF_MULTIPLIER_def MAX_DELAY_def)

subsection \<open>Helper facts on the retry loops\<close>

lemma upt_0_2: "[0..<2] = [0, 1]"
  by code_simp

lemma upt_0_3: "[0..<3] = [0, 1, 2]"
  by code_simp

lemma upt_0_4: "[0..<4] = [0, 1, 2, 3]"
  by code_simp

lemma Suc_numerals: "Suc (Suc 0) = 2" "Suc 2 = 3" "Suc 3 = 4"
  by simp_all

lemma delay_values:
  "calculate_retry_delay 0 = 2" "calculate_retry_delay (Suc 0) = 4" "calculate_retry_delay 2 = 8"
  by (simp_all add: calculate_retry_delay_def BASE_DELAY_def BACKOFF_MULTIPLIER_def MAX_DELAY_def)

lemma timeout_retryable: "is_retryable_error (Exn Exception ''Request Timeout'')"
  by code_simp

lemma insufficient_funds_fatal: "\<not> is_retryable_error (Exn Exception ''insufficient funds'')"
  by code_simp

lemma get_nonce_first_ok:
  assumes "get_transaction_count w3 (calls_of is_count tr) = Inr n"
  shows "get_nonce_with_retry w3 3 tr = (Inr (Some n), tr @ [GetTransactionCount])"
  using assms by (simp add: get_nonce_with_retry_def upt_0_3)

lemma send_fatal_once:
  assumes "0 < max_retries"
    and "send_raw_transaction w3 (calls_of is_send tr) tx = Inl e"
    and "\<not> is_retryable_error e"
  shows "send_transaction_with_retry w3 tx max_retries tr = (Inl e, tx, tr @ [SendRawTransaction tx])"
proof -
  from assms(1) have "[0..<max_retries] = 0 # [1..<max_retries]"
    by (simp add: upt_conv_Cons)
  with assms(2,3) show ?thesis
    by (simp add: send_transaction_with_retry_def send_attempt_def)
qed

lemma get_nonce_attempts_sends:
  "filter is_send (snd (get_nonce_attempts w3 m atts tr)) = filter is_send tr"
  by (induction atts arbitrary: tr) (auto split: sum.splits)

lemma send_attempt_sends:
  "calls_of is_send (snd (snd (send_attempt w3 attempt tx tr))) \<le> Suc (calls_of is_send tr)"
proof -
  have "filter is_send (snd (get_nonce_with_retry w3 3 tr)) = filter is_send tr"
    by (simp add: get_nonce_with_retry_def get_nonce_attempts_sends)
  then show ?thesis
    by (auto simp: send_attempt_def calls_of_def split: prod.splits sum.splits)
qed

lemma send_attempts_bound:
  "calls_of is_send (snd (snd (send_attempts w3 m le atts tx tr)))
     \<le> calls_of is_send tr + length atts"
proof (induction atts arbitrary: le tx tr)
  case Nil
  then show ?case by (simp split: option.splits)
next
  case (Cons a atts)
  obtain r tx1 tr1 where sa: "send_attempt w3 a tx tr = (r, tx1, tr1)"
    by (cases "send_attempt w3 a tx tr") auto
  have b: "calls_of is_send tr1 \<le> Suc (calls_of is_send tr)"
    using send_attempt_sends [of w3 a tx tr] sa by simp
  show ?case
  proof (cases r)
    case (Inr h)
    with sa b show ?thesis by simp
  next
    case (Inl e)
    show ?thesis
    proof (cases "int a < int m - 1 \<and> is_retryable_error e")
      case True
      have "calls_of is_send (snd (snd (send_attempts w3 m (Some e) atts (increase_gas e tx1)
              (tr1 @ [Sleep (calculate_retry_delay a)]))))
            \<le> calls_of is_send (tr1 @ [Sleep (calculate_retry_delay a)]) + length atts"
        by (rule Cons.IH)
      moreover have "calls_of is_send (tr1 @ [Sleep (calculate_retry_delay a)]) = calls_of is_send tr1"
        by (simp add: calls_of_def)
      ultimately show ?thesis using sa Inl True b by simp
    next
      case False
      with sa Inl b show ?thesis by auto
    qed
  qed
qed

lemma wait_attempts_bound:
  "calls_of is_wait (snd (wait_attempts w3 m atts h tr)) \<le> calls_of is_wait tr + length atts
   \<and> filter is_sleep (snd (wait_attempts w3 m atts h tr)) = filter is_sleep tr"
proof (induction atts arbitrary: tr)
  case Nil
  then show ?case by simp
next
  case (Cons a atts)
  have "calls_of is_wait (tr @ [WaitForReceipt h]) = Suc (calls_of is_wait tr)"
    by (simp add: calls_of_def)
  moreover have "filter is_sleep (tr @ [WaitForReceipt h]) = filter is_sleep tr"
    by simp
  ultimately show ?case
    using Cons.IH [of "tr @ [WaitForReceipt h]"]
    by (auto split: sum.splits)
qed


lemma send_all_fail:
  assumes fail: "\<forall>k tx. \<exists>e. send_raw_transaction w3 k tx = Inl e \<and> is_retryable_error e"
    and cnt: "\<forall>k. \<exists>n. get_transaction_count w3 k = Inr n"
  shows "\<exists>e tx1 tx2. send_transaction_with_retry w3 tx 3 [] =
           (Inl e, tx2,
            [SendRawTransaction tx, Sleep 2, GetTransactionCount, SendRawTransaction tx1,
             Sleep 4, GetTransactionCount, SendRawTransaction tx2])"
proof -
  from fail obtain e0 where e0: "send_raw_transaction w3 0 tx = Inl e0" "is_retryable_error e0"
    by blast
  from cnt obtain n1 where n1: "get_transaction_count w3 0 = Inr n1"
    by blast
  define tx1 where "tx1 = (increase_gas e0 tx)\<lparr>tx_nonce := Some n1\<rparr>"
  from fail obtain e1 where e1: "send_raw_transaction w3 1 tx1 = Inl e1" "is_retryable_error e1"
    by blast
  from cnt obtain n2 where n2: "get_transaction_count w3 1 = Inr n2"
    by blast
  define tx2 where "tx2 = (increase_gas e1 tx1)\<lparr>tx_nonce := Some n2\<rparr>"
  from fail obtain e2 where e2: "send_raw_transaction w3 2 tx2 = Inl e2"
    by blast
  have "send_transaction_with_retry w3 tx 3 [] =
          (Inl e2, tx2,
           [SendRawTransaction tx, Sleep 2, GetTransactionCount, SendRawTransaction tx1,
            Sleep 4, GetTransactionCount, SendRawTransaction tx2])"
    using e0 n1 e1 n2 e2
    by (simp add: send_transaction_with_retry_def send_attempt_def get_nonce_with_retry_def
        upt_0_3 calls_of_def delay_values Suc_numerals tx1_def [symmetric] tx2_def [symmetric])
  then show ?thesis by blast
qed

lemma wait_all_fail:
  assumes wt: "\<forall>k h. \<exists>e. wait_for_transaction_receipt w3 k h = Inl e \<and> exc_class e = TimeExhausted"
  shows "\<exists>e. wait_for_receipt_with_retry w3 h 2 [] = (Inl e, [WaitForReceipt h, WaitForReceipt h])"
proof -
  from wt obtain e0 where e0: "wait_for_transaction_receipt w3 0 h = Inl e0" "exc_class e0 = TimeExhausted"
    by blast
  from wt obtain e1 where e1: "wait_for_transaction_receipt w3 1 h = Inl e1" "exc_class e1 = TimeExhausted"
    by blast
  have "wait_for_receipt_with_retry w3 h 2 [] = (Inl e1, [WaitForReceipt h, WaitForReceipt h])"
    using e0 e1 by (simp add: wait_for_receipt_with_retry_def upt_0_2 calls_of_def Suc_numerals)
  then show ?thesis by blast
qed

lemma decorator_all_fail:
  assumes fn: "\<forall>tr. \<exists>e. func tr = (Inl e, tr) \<and> is_retryable_error e"
  shows "\<exists>e. retry_with_backoff 3 func [] =
           (Inl e, [CallWrapped, Sleep 2, CallWrapped, Sleep 4, CallWrapped, Sleep 8, CallWrapped])"
proof -
  let ?t0 = "[CallWrapped]"
  let ?t1 = "[CallWrapped, Sleep 2, CallWrapped]"
  let ?t2 = "[CallWrapped, Sleep 2, CallWrapped, Sleep 4, CallWrapped]"
  let ?t3 = "[CallWrapped, Sleep 2, CallWrapped, Sleep 4, CallWrapped, Sleep 8, CallWrapped]"
  from fn obtain e0 where e0: "func ?t0 = (Inl e0, ?t0)" "is_retryable_error e0" by blast
  from fn obtain e1 where e1: "func ?t1 = (Inl e1, ?t1)" "is_retryable_error e1" by blast
  from fn obtain e2 where e2: "func ?t2 = (Inl e2, ?t2)" "is_retryable_error e2" by blast
  from fn obtain e3 where e3: "func ?t3 = (Inl e3, ?t3)" by blast
  have "retry_with_backoff 3 func [] = (Inl e3, ?t3)"
    using e0 e1 e2 e3 by (simp add: retry_with_backoff_def upt_0_4 delay_values Suc_numerals)
  then show ?thesis by blast
qed

subsection \<open>How often a failing send or wait is attempted\<close>

text \<open>
  C2, as stated, fails. The claim counts four sends for \<open>max_retries = 3\<close> and, by the
  same rule, three waits for \<open>max_retries = 2\<close>. With a provider whose every send
  fails with the retryable message "Request Timeout" and whose every wait raises
  \<open>TimeExhausted\<close>, \<open>send_transaction_with_retry\<close> does not send four times and
  \<open>wait_for_receipt_with_retry\<close> does not wait three times.
\<close>

theorem C2_send_counterexample:
  "is_retryable_error (Exn Exception ''Request Timeout'')
   \<and> calls_of is_send (snd (snd (send_transaction_with_retry failing_rpc tx0 3 []))) \<noteq> 4
   \<and> calls_of is_wait (snd (wait_for_receipt_with_retry failing_rpc (Some ''0xab'') 2 [])) \<noteq> 3"
  by code_simp

text \<open>
  C2, amended. In \<open>send_transaction_with_retry\<close> and \<open>wait_for_receipt_with_retry\<close>
  the bound \<open>max_retries\<close> is the total number of attempts. With \<open>max_retries = 3\<close> a
  send that keeps failing with a retryable error (the nonce refreshes succeeding) is
  invoked exactly three times, one initial attempt and two retries, with the delays 2
  and 4 seconds each applied after a failed attempt and before the next one, none before
  the first, and the last error is raised; for any provider there are at most three
  sends. With \<open>max_retries = 2\<close> a wait that keeps raising \<open>TimeExhausted\<close> is invoked
  exactly twice, at most twice for any provider, and no delay is ever applied between
  waits. The decorator \<open>retry_with_backoff\<close> with \<open>max_retries = 3\<close> does invoke a
  function that keeps failing with a retryable error four times, with the delays 2, 4
  and 8 seconds before the retries.
\<close>

theorem C2_attempts_amended:
  assumes "\<forall>k tx. \<exists>e. send_raw_transaction w3 k tx = Inl e \<and> is_retryable_error e"
    and "\<forall>k. \<exists>n. get_transaction_count w3 k = Inr n"
    and "\<forall>k h. \<exists>e. wait_for_transaction_receipt w3 k h = Inl e \<and> exc_class e = TimeExhausted"
    and "\<forall>tr. \<exists>e. func tr = (Inl e, tr) \<and> is_retryable_error e"
  shows "(\<exists>e tx1 tx2. send_transaction_with_retry w3 tx 3 [] =
            (Inl e, tx2,
             [SendRawTransaction tx, Sleep 2, GetTransactionCount, SendRawTransaction tx1,
              Sleep 4, GetTransactionCount, SendRawTransaction tx2]))
       \<and> (\<exists>e. wait_for_receipt_with_retry w3 h 2 [] =
                 (Inl e, [WaitForReceipt h, WaitForReceipt h]))
       \<and> (\<exists>e. retry_with_backoff 3 func [] =
                 (Inl e, [CallWrapped, Sleep 2, CallWrapped, Sleep 4, CallWrapped, Sleep 8,
                          CallWrapped]))
       \<and> calls_of is_send (snd (snd (send_transaction_with_retry any_w3 any_tx 3 []))) \<le> 3
       \<and> calls_of is_wait (snd (wait_for_receipt_with_retry any_w3 h 2 [])) \<le> 2
       \<and> filter is_sleep (snd (wait_for_receipt_with_retry any_w3 h 2 [])) = []"
proof -
  have "calls_of is_send (snd (snd (send_transaction_with_retry any_w3 any_tx 3 []))) \<le> 3"
    using send_attempts_bound [of any_w3 3 None "[0..<3]" any_tx "[]"]
    by (simp add: send_transaction_with_retry_def calls_of_def)
  moreover have "calls_of is_wait (snd (wait_for_receipt_with_retry any_w3 h 2 [])) \<le> 2
      \<and> filter is_sleep (snd (wait_for_receipt_with_retry any_w3 h 2 [])) = []"
    using wait_attempts_bound [of any_w3 2 "[0..<2]" h "[]"]
    by (simp add: wait_for_receipt_with_retry_def calls_of_def)
  ultimately show ?thesis
    using send_all_fail [OF assms(1,2)] wait_all_fail [OF assms(3)] decorator_all_fail [OF assms(4)]
    by blast
qed


text \<open>
  The amended C2 at the provider whose sends always time out.
\<close>

theorem C2_attempts_witness:
  "(\<forall>k tx. \<exists>e. send_raw_transaction failing_rpc k tx = Inl e \<and> is_retryable_error e)
   \<and> (\<forall>k. \<exists>n. get_transaction_count failing_rpc k = Inr n)
   \<and> (\<forall>k h. \<exists>e. wait_for_transaction_receipt failing_rpc k h = Inl e
                  \<and> exc_class e = TimeExhausted)
   \<and> (\<forall>tr. \<exists>e. always_timeout tr = (Inl e, tr) \<and> is_retryable_error e)
   \<and> (\<exists>e tx1 tx2. send_transaction_with_retry failing_rpc tx0 3 [] =
            (Inl e, tx2,
             [SendRawTransaction tx0, Sleep 2, GetTransactionCount, SendRawTransaction tx1,
              Sleep 4, GetTransactionCount, SendRawTransaction tx2]))
   \<and> (\<exists>e. wait_for_receipt_with_retry failing_rpc (Some ''0xab'') 2 [] =
             (Inl e, [WaitForReceipt (Some ''0xab''), WaitForReceipt (Some ''0xab'')]))
   \<and> (\<exists>e. retry_with_backoff 3 always_timeout [] =
             (Inl e, [CallWrapped, Sleep 2, CallWrapped, Sleep 4, CallWrapped, Sleep 8,
                      CallWrapped]))"
proof -
  have h1: "\<forall>k tx. \<exists>e. send_raw_transaction failing_rpc k tx = Inl e \<and> is_retryable_error e"
    by (simp add: failing_rpc_def timeout_retryable)
  have h2: "\<forall>k. \<exists>n. get_transaction_count failing_rpc k = Inr n"
    by (simp add: failing_rpc_def)
  have h3: "\<forall>k h. \<exists>e. wait_for_transaction_receipt failing_rpc k h = Inl e
                  \<and> exc_class e = TimeExhausted"
    by (simp add: failing_rpc_def)
  have h4: "\<forall>tr. \<exists>e. always_timeout tr = (Inl e, tr) \<and> is_retryable_error e"
    by (simp add: always_timeout_def timeout_retryable)
  show ?thesis
    using h1 h2 h3 h4
      C2_attempts_amended [OF h1 h2 h3 h4, of tx0 "Some ''0xab''" failing_rpc tx0]
    by blast
qed

subsection \<open>Fatal errors are not retried\<close>

text \<open>
  C6. A mint whose first send fails with a non-retryable error (the user exists, the
  transaction id is new and the nonce is fetched at the first try) performs exactly one
  send: the trace gains the nonce request and that single send, no sleep and no further
  send; \<open>process_mint\<close> returns \<^verbatim>\<open>None\<close> and the transaction record has the status
  "failed".
\<close>

theorem C6_fatal_error_no_retry:
  assumes "transactions w tx_id = None"
    and "users w user_id = Some user_wallet"
    and "to_checksum_address w3 user_wallet = Inr wallet_address"
    and "to_wei w3 amount = Inr amount_wei"
    and "get_transaction_count w3 (calls_of is_count (trace w)) = Inr nonce"
    and "mint_tx = \<lparr>tx_nonce = Some nonce, maxFeePerGas = Some 1000000,
                    maxPriorityFeePerGas = Some 100000\<rparr>"
    and "send_raw_transaction w3 (calls_of is_send (trace w)) mint_tx = Inl e"
    and "\<not> is_retryable_error e"
  shows "\<exists>w'. process_mint w3 tx_id user_id amount reason w = (None, w')
           \<and> trace w' = trace w @ [GetTransactionCount, SendRawTransaction mint_tx]
           \<and> map_option rec_status (transactions w' tx_id) = Some ''failed''"
proof -
  let ?tr1 = "trace w @ [GetTransactionCount]"
  have nonce: "get_nonce_with_retry w3 3 (trace w) = (Inr (Some nonce), ?tr1)"
    using assms(5) by (rule get_nonce_first_ok)
  have "calls_of is_send ?tr1 = calls_of is_send (trace w)"
    by (simp add: calls_of_def)
  with assms(7) have "send_raw_transaction w3 (calls_of is_send ?tr1) mint_tx = Inl e"
    by simp
  then have send: "send_transaction_with_retry w3 mint_tx 3 ?tr1
                     = (Inl e, mint_tx, ?tr1 @ [SendRawTransaction mint_tx])"
    using assms(8) by (intro send_fatal_once) simp_all
  show ?thesis
    using assms(1-4) nonce send
    by (simp add: process_mint_def mint_steps_def update_record_def assms(6) [symmetric])
qed

text \<open>
  C6 at the message "insufficient funds", which is not retryable.
\<close>

theorem C6_fatal_error_witness:
  "\<not> is_retryable_error (Exn Exception ''insufficient funds'')
   \<and> (\<exists>w'. process_mint broke_rpc ''tx-1'' ''alice'' 25 ''booking'' mint_world0 = (None, w')
           \<and> trace w' = [GetTransactionCount,
                 SendRawTransaction \<lparr>tx_nonce = Some 7, maxFeePerGas = Some 1000000,
                                     maxPriorityFeePerGas = Some 100000\<rparr>]
           \<and> map_option rec_status (transactions w' ''tx-1'') = Some ''failed'')"
proof -
  have fatal: "\<not> is_retryable_error (Exn Exception ''insufficient funds'')"
    by (rule insufficient_funds_fatal)
  show ?thesis
    using fatal
      C6_fatal_error_no_retry [of mint_world0 "''tx-1''" "''alice''"
        "''0x00000000000000000000000000000000000000aa''" broke_rpc
        "''0x00000000000000000000000000000000000000aa''" 25 "25 * 10 ^ 18" 7
        "\<lparr>tx_nonce = Some 7, maxFeePerGas = Some 1000000, maxPriorityFeePerGas = Some 100000\<rparr>"
        "Exn Exception ''insufficient funds''" "''booking''"]
    by (simp add: mint_world0_def broke_rpc_def)
qed

section \<open>Properties of the nonce manager\<close>

subsection \<open>Keys and store commands\<close>

lemma lower_char_idem: "lower_char (lower_char c) = lower_char c"
  by (cases c) (auto simp: lower_char_def Let_def)

lemma lower_idem: "lower (lower s) = lower s"
  by (simp add: lower_def lower_char_idem)

lemma key_of_lower:
  "get_nonce_key (lower a) = get_nonce_key a" "get_lock_key (lower a) = get_lock_key a"
  by (simp_all add: get_nonce_key_def get_lock_key_def lower_idem)

lemma keys_distinct: "get_nonce_key a \<noteq> get_lock_key a"
proof
  assume "get_nonce_key a = get_lock_key a"
  then have "length (get_nonce_key a) = length (get_lock_key a)" by simp
  then show False by (simp add: get_nonce_key_def get_lock_key_def)
qed

lemma redis_get_set [simp]:
  "redis_get k (redis_set k' v w) = (if k = k' then Some v else redis_get k w)"
  by (simp add: redis_get_def redis_set_def split: option.splits)

lemma redis_get_delete [simp]:
  "redis_get k (redis_delete k' w) = (if k = k' then None else redis_get k w)"
  by (simp add: redis_get_def redis_delete_def split: option.splits)

lemma redis_set_fields [simp]:
  "clock (redis_set k v w) = clock w"
  "chain_nonce (redis_set k v w) = chain_nonce w"
  "commands (redis_set k v w) = commands w @ [SET k v]"
  by (simp_all add: redis_set_def)

lemma redis_delete_fields [simp]:
  "clock (redis_delete k w) = clock w"
  "chain_nonce (redis_delete k w) = chain_nonce w"
  "commands (redis_delete k w) = commands w @ [DEL k]"
  by (simp_all add: redis_delete_def)

lemma set_nx_ex_free:
  assumes "redis_get k w = None" and "0 < ex"
  shows "\<exists>w1. redis_set_nx_ex k v ex w = (Inr True, w1)
           \<and> clock w1 = clock w \<and> chain_nonce w1 = chain_nonce w
           \<and> commands w1 = commands w @ [SET_NX_EX k v ex]
           \<and> redis_get k w1 = Some v
           \<and> (\<forall>k'. k' \<noteq> k \<longrightarrow> redis_get k' w1 = redis_get k' w)"
  using assms by (simp add: redis_set_nx_ex_def redis_get_def split: option.splits)

lemma lock_enter_free:
  assumes "redis_get (get_lock_key a) w = None" and "0 < lease_seconds self timeout"
  shows "\<exists>w1. lock_enter self a timeout w = (Inr True, w1)
           \<and> clock w1 = clock w \<and> chain_nonce w1 = chain_nonce w
           \<and> commands w1 = commands w @ [SET_NX_EX (get_lock_key a) (lock_id_at w)
                                            (lease_seconds self timeout)]
           \<and> redis_get (get_lock_key a) w1 = Some (lock_id_at w)
           \<and> (\<forall>k'. k' \<noteq> get_lock_key a \<longrightarrow> redis_get k' w1 = redis_get k' w)"
proof -
  from set_nx_ex_free [OF assms, of "lock_id_at w"] obtain w1 where
    w1: "redis_set_nx_ex (get_lock_key a) (lock_id_at w) (lease_seconds self timeout) w = (Inr True, w1)"
      "clock w1 = clock w" "chain_nonce w1 = chain_nonce w"
      "commands w1 = commands w @ [SET_NX_EX (get_lock_key a) (lock_id_at w)
                                            (lease_seconds self timeout)]"
      "redis_get (get_lock_key a) w1 = Some (lock_id_at w)"
      "\<forall>k'. k' \<noteq> get_lock_key a \<longrightarrow> redis_get k' w1 = redis_get k' w"
    by blast
  have "lock_enter self a timeout w = (Inr True, w1)"
    using w1(1) by (simp add: lock_enter_def upt_conv_Cons)
  with w1 show ?thesis by blast
qed

subsection \<open>Reading the next nonce\<close>

text \<open>
  C7. \<open>get_nonce\<close>, called while the wallet's lock is free (the chain answering the
  query): when there is no stored value or \<open>force_sync\<close> is set it returns the chain's
  transaction count and writes it to the store; otherwise it returns the maximum of the
  stored and the chain value and writes that value exactly when it differs from the
  stored one. Afterwards the store holds the returned value and the lock is released;
  the write commands issued are the lock, the write of the nonce if any, and the unlock.
\<close>

theorem C7_get_nonce:
  assumes "redis_get (get_lock_key wallet_address) w = None"
    and "0 < lock_timeout self"
    and "chain_nonce w (lower wallet_address) = Inr blockchain_nonce"
    and "redis_get (get_nonce_key wallet_address) w = map_option StrOfInt stored_nonce"
    and "nonce = (case stored_nonce of
                    None \<Rightarrow> blockchain_nonce
                  | Some stored \<Rightarrow> if force_sync then blockchain_nonce
                                   else max stored blockchain_nonce)"
    and "persisted = (stored_nonce = None \<or> force_sync \<or> stored_nonce \<noteq> Some nonce)"
  shows "\<exists>w'. get_nonce self wallet_address force_sync w = (Inr nonce, w')
           \<and> redis_get (get_nonce_key wallet_address) w' = Some (StrOfInt nonce)
           \<and> redis_get (get_lock_key wallet_address) w' = None
           \<and> drop (length (commands w)) (commands w') =
               [SET_NX_EX (get_lock_key wallet_address) (lock_id_at w) (lock_timeout self)]
               @ (if persisted then [SET (get_nonce_key wallet_address) (StrOfInt nonce)] else [])
               @ [DEL (get_lock_key wallet_address)]"
proof -
  let ?lk = "get_lock_key wallet_address" and ?nk = "get_nonce_key wallet_address"
  have ls: "lease_seconds self None = lock_timeout self"
    by (simp add: lease_seconds_def)
  from lock_enter_free [of "lower wallet_address" w self None] assms(1,2)
  obtain w1 where w1: "lock_enter self (lower wallet_address) None w = (Inr True, w1)"
      "clock w1 = clock w" "chain_nonce w1 = chain_nonce w"
      "commands w1 = commands w @ [SET_NX_EX ?lk (lock_id_at w) (lock_timeout self)]"
      "redis_get ?lk w1 = Some (lock_id_at w)"
      "\<forall>k'. k' \<noteq> ?lk \<longrightarrow> redis_get k' w1 = redis_get k' w"
    by (auto simp: key_of_lower ls)
  have nk: "redis_get ?nk w1 = map_option StrOfInt stored_nonce"
    using w1(6) keys_distinct [of wallet_address] assms(4) by simp
  have ne: "?lk \<noteq> ?nk"
    using keys_distinct [of wallet_address] by simp
  show ?thesis
  proof (cases "stored_nonce = None \<or> force_sync")
    case True
    then have n: "nonce = blockchain_nonce" and p: persisted
      using assms(5,6) by (auto split: option.splits)
    have body: "get_nonce_body (lower wallet_address) force_sync w1 =
                  (Inr nonce, redis_set ?nk (StrOfInt nonce) w1)"
      using True nk w1(3) assms(3) n
      by (auto simp: get_nonce_body_def key_of_lower Let_def)
    show ?thesis
      using w1(1,4,5) ne p
      by (simp add: get_nonce_def acquire_lock_def body key_of_lower lock_exit_def Let_def)
  next
    case False
    then obtain stored where st: "stored_nonce = Some stored" and nf: "\<not> force_sync"
      by auto
    have n: "nonce = max stored blockchain_nonce"
      using assms(5) st nf by simp
    have p: "persisted = (nonce \<noteq> stored)"
      using assms(6) st nf by auto
    have body: "get_nonce_body (lower wallet_address) force_sync w1 =
                  (Inr nonce, if nonce \<noteq> stored then redis_set ?nk (StrOfInt nonce) w1 else w1)"
      using nk w1(3) assms(3) n st nf
      by (simp add: get_nonce_body_def key_of_lower Let_def py_int_def)
    show ?thesis
      using w1(1,4,5) ne p nk st
      by (simp add: get_nonce_def acquire_lock_def body key_of_lower lock_exit_def Let_def)
  qed
qed

lemma wallet_A_keys:
  "get_nonce_key wallet_A = ''nonce:0xaaaaaaaaaaaaaaaaaaaaaaaaaaaaaaaaaaaaaaaa''"
  "get_lock_key wallet_A = ''nonce:lock:0xaaaaaaaaaaaaaaaaaaaaaaaaaaaaaaaaaaaaaaaa''"
  "lower wallet_A = ''0xaaaaaaaaaaaaaaaaaaaaaaaaaaaaaaaaaaaaaaaa''"
  by code_simp+

text \<open>
  C7 at a world whose stored nonce 12 is ahead of the chain's 10 (12 is returned and
  nothing is written), and at the fresh world (10 is adopted and written).
\<close>

theorem C7_get_nonce_witness:
  "(\<exists>w'. get_nonce default_manager wallet_A False stored_world = (Inr 12, w')
        \<and> redis_get (get_nonce_key wallet_A) w' = Some (StrOfInt 12)
        \<and> redis_get (get_lock_key wallet_A) w' = None
        \<and> drop (length (commands stored_world)) (commands w') =
            [SET_NX_EX (get_lock_key wallet_A) (lock_id_at stored_world) 30,
             DEL (get_lock_key wallet_A)])
   \<and> (\<exists>w'. get_nonce default_manager wallet_A False fresh_world = (Inr 10, w')
        \<and> redis_get (get_nonce_key wallet_A) w' = Some (StrOfInt 10)
        \<and> redis_get (get_lock_key wallet_A) w' = None
        \<and> drop (length (commands fresh_world)) (commands w') =
            [SET_NX_EX (get_lock_key wallet_A) (lock_id_at fresh_world) 30,
             SET (get_nonce_key wallet_A) (StrOfInt 10),
             DEL (get_lock_key wallet_A)])"
  using C7_get_nonce [of wallet_A stored_world default_manager 10 "Some 12" 12 False False]
    C7_get_nonce [of wallet_A fresh_world default_manager 10 None 10 False True]
  by (simp add: stored_world_def fresh_world_def default_manager_def redis_get_def wallet_A_keys)

subsection \<open>Taking and releasing the lease\<close>

lemma sleep_fields [simp]:
  "clock (sleep d w) = clock w + d"
  "redis (sleep d w) = redis w"
  "chain_nonce (sleep d w) = chain_nonce w"
  "commands (sleep d w) = commands w"
  by (simp_all add: sleep_def)

lemma sleep_sleep [simp]: "sleep d (sleep d' w) = sleep (d' + d) w"
  by (simp add: sleep_def add.assoc)

lemma redis_get_earlier:
  assumes "redis_get k (sleep d' w) \<noteq> None" and "d \<le> d'"
  shows "redis_get k (sleep d w) \<noteq> None"
  using assms by (auto simp: redis_get_def split: option.splits if_splits)

lemma lock_attempts_held:
  assumes "redis_get lk w \<noteq> None" and "0 < T"
  shows "lock_attempts lk lid T a (x # rest) d w =
           lock_attempts lk lid T a rest (min (d * 2) 5) (sleep d w)"
  using assms by (auto simp: redis_set_nx_ex_def)

lemma upt_0_10: "[0..<10] = [0, 1, 2, 3, 4, 5, 6, 7, 8, 9]"
  by code_simp

lemma lock_enter_exhausted:
  assumes held: "redis_get (get_lock_key a) (sleep (213 / 10) w) \<noteq> None"
    and pos: "0 < lease_seconds self timeout"
  shows "lock_enter self a timeout w = (Inl (lock_failure a), sleep (263 / 10) w)"
proof -
  have live: "redis_get (get_lock_key a) (sleep d w) \<noteq> None" if "d \<le> 213 / 10" for d
    using redis_get_earlier [OF held that] .
  have step: "lock_attempts (get_lock_key a) lid (lease_seconds self timeout) a (x # rest) d
                (sleep t w) =
              lock_attempts (get_lock_key a) lid (lease_seconds self timeout) a rest
                (min (d * 2) 5) (sleep (t + d) w)"
    if "t \<le> 213 / 10" for t x rest d lid
    using lock_attempts_held [OF live [OF that] pos] by simp
  have "lock_attempts (get_lock_key a) (lock_id_at w) (lease_seconds self timeout) a
          [0, 1, 2, 3, 4, 5, 6, 7, 8, 9] (1 / 10) (sleep 0 w) =
        (Inl (lock_failure a), sleep (263 / 10) w)"
    by (simp add: step del: lock_attempts.simps(2))
  moreover have "sleep 0 w = w"
    by (simp add: sleep_def)
  ultimately show ?thesis
    by (simp add: lock_enter_def upt_0_10)
qed


lemma lock_enter_free_eq:
  assumes "redis_get (get_lock_key a) w = None" and "0 < lease_seconds self timeout"
  shows "lock_enter self a timeout w =
           (Inr True,
            w\<lparr>redis := (redis w)(get_lock_key a \<mapsto>
                          (lock_id_at w, Some (clock w + real_of_int (lease_seconds self timeout)))),
              commands := commands w @ [SET_NX_EX (get_lock_key a) (lock_id_at w)
                                          (lease_seconds self timeout)]\<rparr>)"
  using assms by (simp add: lock_enter_def upt_conv_Cons redis_set_nx_ex_def)

text \<open>
  C8. Whenever \<open>acquire_lock\<close> takes the lease (its enter part yields), the outcome of
  the protected body, a value or an exception alike, is passed on and on exit the lock
  key no longer holds this acquisition's identifier; if it still held it when the body
  ended, the key is gone. A free lock is always taken. If the lock is still held by
  someone at the time of the tenth attempt, 21.3 seconds after the first, the operation
  raises the lock failure after 26.3 seconds of sleeping, and the body is not run.
\<close>

theorem C8_lease_released:
  assumes "0 < lease_seconds self timeout"
  shows "(lock_enter self a timeout w = (Inr True, w1) \<and> body w1 = (r, w2) \<longrightarrow>
            (\<exists>w'. acquire_lock self a timeout body w = (r, w')
               \<and> redis_get (get_lock_key a) w' \<noteq> Some (lock_id_at w)
               \<and> (redis_get (get_lock_key a) w2 = Some (lock_id_at w)
                    \<longrightarrow> redis_get (get_lock_key a) w' = None)))
       \<and> (redis_get (get_lock_key a) w = None \<longrightarrow>
            (\<exists>w1. lock_enter self a timeout w = (Inr True, w1)))
       \<and> (redis_get (get_lock_key a) (sleep (213 / 10) w) \<noteq> None \<longrightarrow>
            acquire_lock self a timeout body w = (Inl (lock_failure a), sleep (263 / 10) w))"
proof (intro conjI impI)
  assume "lock_enter self a timeout w = (Inr True, w1) \<and> body w1 = (r, w2)"
  then show "\<exists>w'. acquire_lock self a timeout body w = (r, w')
               \<and> redis_get (get_lock_key a) w' \<noteq> Some (lock_id_at w)
               \<and> (redis_get (get_lock_key a) w2 = Some (lock_id_at w)
                    \<longrightarrow> redis_get (get_lock_key a) w' = None)"
    by (simp add: acquire_lock_def lock_exit_def)
next
  assume "redis_get (get_lock_key a) w = None"
  then show "\<exists>w1. lock_enter self a timeout w = (Inr True, w1)"
    using lock_enter_free_eq [OF _ assms] by blast
next
  assume "redis_get (get_lock_key a) (sleep (213 / 10) w) \<noteq> None"
  then have "lock_enter self a timeout w = (Inl (lock_failure a), sleep (263 / 10) w)"
    using assms by (rule lock_enter_exhausted)
  then show "acquire_lock self a timeout body w = (Inl (lock_failure a), sleep (263 / 10) w)"
    by (simp add: acquire_lock_def)
qed

text \<open>
  C10. On exit \<open>acquire_lock\<close> deletes the lock key exactly when the stored value still
  equals the identifier written by this acquisition: if the value differs (the lease
  expired and another holder took the lock) or the key is absent, the whole world, the
  other holder's lock included, is left as the body left it and no delete is issued.
\<close>

theorem C10_release_only_own_lock:
  assumes "lock_enter self a timeout w = (Inr True, w1)" and "body w1 = (r, w2)"
  shows "(redis_get (get_lock_key a) w2 \<noteq> Some (lock_id_at w) \<longrightarrow>
            acquire_lock self a timeout body w = (r, w2))
       \<and> (redis_get (get_lock_key a) w2 = Some (lock_id_at w) \<longrightarrow>
            acquire_lock self a timeout body w = (r, redis_delete (get_lock_key a) w2))
       \<and> (DEL (get_lock_key a)
            \<in> set (drop (length (commands w2))
                      (commands (snd (acquire_lock self a timeout body w))))
          \<longleftrightarrow> redis_get (get_lock_key a) w2 = Some (lock_id_at w))"
  using assms by (simp add: acquire_lock_def lock_exit_def)

subsection \<open>Reserving a nonce\<close>

text \<open>
  \<open>reserve_nonce\<close> takes the wallet's lock and then calls \<open>get_nonce\<close>, which tries
  to take the same lock again. With a lock timeout of 22 seconds or more the first lock
  outlives all ten attempts of the second acquisition.
\<close>

lemma reserve_nonce_deadlock:
  assumes free: "redis_get (get_lock_key a) w = None"
    and long: "22 \<le> lock_timeout self"
  shows "fst (reserve_nonce self a w) = Inl (lock_failure (lower a))
       \<and> redis (snd (reserve_nonce self a w)) (get_nonce_key a) = redis w (get_nonce_key a)
       \<and> clock (snd (reserve_nonce self a w)) = clock w + 263 / 10"
proof -
  let ?lk = "get_lock_key a" and ?T = "lock_timeout self"
  let ?w1 = "w\<lparr>redis := (redis w)(?lk \<mapsto> (lock_id_at w, Some (clock w + real_of_int ?T))),
               commands := commands w @ [SET_NX_EX ?lk (lock_id_at w) ?T]\<rparr>"
  have ls: "lease_seconds self None = ?T"
    by (simp add: lease_seconds_def)
  have pos: "0 < lease_seconds self None"
    using long ls by simp
  have outer: "lock_enter self (lower a) None w = (Inr True, ?w1)"
    using lock_enter_free_eq [of "lower a" w self None] free pos by (simp add: key_of_lower ls)
  have "real_of_int ?T \<ge> 22"
    using long by simp
  then have held: "redis_get (get_lock_key (lower a)) (sleep (213 / 10) ?w1) \<noteq> None"
    by (simp add: redis_get_def key_of_lower)
  have inner: "lock_enter self (lower a) None ?w1 = (Inl (lock_failure (lower a)), sleep (263 / 10) ?w1)"
    using held pos by (rule lock_enter_exhausted)
  have ne: "get_nonce_key a \<noteq> ?lk"
    by (rule keys_distinct)
  show ?thesis
    using ne
    by (simp add: reserve_nonce_def get_nonce_def acquire_lock_def outer inner lower_idem
        key_of_lower lock_exit_def redis_delete_def Let_def)
qed

text \<open>
  With a lock timeout of 5 seconds the first lock expires while the second acquisition
  is waiting, so the call goes through (after 6.3 seconds, and without the first lock
  protecting anything): it returns the chain's count 10 and stores 11.
\<close>

lemma reserve_nonce_short_lease:
  "fst (reserve_many short_manager wallet_A 1 fresh_world) = Inr [10]
   \<and> redis_get (get_nonce_key wallet_A) (snd (reserve_many short_manager wallet_A 1 fresh_world))
       = Some (StrOfInt 11)"
  by code_simp

text \<open>
  C1 does not hold of the code. With the default lock timeout of 30 seconds, an empty
  store and a chain transaction count of 10, a single call of \<open>reserve_nonce\<close> does
  not return 10: after 26.3 seconds it raises the lock failure, and no next nonce is
  stored.
\<close>

theorem C1_reserve_nonce_self_deadlock:
  "fst (reserve_nonce default_manager wallet_A fresh_world) = Inl (lock_failure (lower wallet_A))
   \<and> fst (reserve_nonce default_manager wallet_A fresh_world) \<noteq> Inr 10
   \<and> redis (snd (reserve_nonce default_manager wallet_A fresh_world)) (get_nonce_key wallet_A) = None
   \<and> clock (snd (reserve_nonce default_manager wallet_A fresh_world)) = 1000 + 263 / 10"
  using reserve_nonce_deadlock [of wallet_A fresh_world default_manager]
  by (simp add: fresh_world_def default_manager_def redis_get_def)


subsection \<open>The lease at concrete worlds\<close>

lemma fresh_world_free: "redis_get (get_lock_key wallet_A) fresh_world = None"
  by (simp add: fresh_world_def redis_get_def)

lemma default_lease: "lease_seconds default_manager None = 30"
  by (simp add: lease_seconds_def default_manager_def)

text \<open>
  C8 at the default manager: a body that raises in the fresh world, and the world whose
  lock is held by someone else until after the last attempt.
\<close>

theorem C8_lease_released_witness:
  "0 < lease_seconds default_manager None
   \<and> (\<exists>w'. acquire_lock default_manager wallet_A None raising_body fresh_world =
              (Inl (Exn ValueError ''boom''), w')
           \<and> redis_get (get_lock_key wallet_A) w' = None)
   \<and> redis_get (get_lock_key wallet_A) (sleep (213 / 10) held_world) \<noteq> None
   \<and> acquire_lock default_manager wallet_A None raising_body held_world =
       (Inl (lock_failure wallet_A), sleep (263 / 10) held_world)"
proof -
  have pos: "0 < lease_seconds default_manager None"
    by (simp add: default_lease)
  define w1 where "w1 = snd (lock_enter default_manager wallet_A None fresh_world)"
  have enter: "lock_enter default_manager wallet_A None fresh_world = (Inr True, w1)"
    using lock_enter_free_eq [OF fresh_world_free pos] by (simp add: w1_def)
  have body: "raising_body w1 = (Inl (Exn ValueError ''boom''), w1)"
    by (simp add: raising_body_def)
  have mine: "redis_get (get_lock_key wallet_A) w1 = Some (lock_id_at fresh_world)"
    using lock_enter_free_eq [OF fresh_world_free pos]
    by (simp add: w1_def redis_get_def default_lease)
  have held: "redis_get (get_lock_key wallet_A) (sleep (213 / 10) held_world) \<noteq> None"
    by (simp add: held_world_def fresh_world_def redis_get_def)
  show ?thesis
    using pos held enter body mine
      C8_lease_released [OF pos, of wallet_A fresh_world w1 raising_body
        "Inl (Exn ValueError ''boom'')" w1]
      C8_lease_released [OF pos, of wallet_A held_world w1 raising_body
        "Inl (Exn ValueError ''boom'')" w1]
    by auto
qed

text \<open>
  C10 at a body that outlives the 30 seconds of its lease, after which a second holder
  has taken the lock: the second holder's lock is still there after the exit.
\<close>

theorem C10_release_only_own_lock_witness:
  "other_holder \<noteq> lock_id_at fresh_world
   \<and> fst (acquire_lock default_manager wallet_A None slow_body fresh_world) = Inr ()
   \<and> redis_get (get_lock_key wallet_A)
        (snd (acquire_lock default_manager wallet_A None slow_body fresh_world))
       = Some other_holder
   \<and> DEL (get_lock_key wallet_A)
        \<notin> set (commands (snd (acquire_lock default_manager wallet_A None slow_body fresh_world)))"
proof -
  have pos: "0 < lease_seconds default_manager None"
    by (simp add: default_lease)
  define w1 where "w1 = snd (lock_enter default_manager wallet_A None fresh_world)"
  define w2 where "w2 = snd (slow_body w1)"
  have enter: "lock_enter default_manager wallet_A None fresh_world = (Inr True, w1)"
    using lock_enter_free_eq [OF fresh_world_free pos] by (simp add: w1_def)
  have body: "slow_body w1 = (Inr (), w2)"
    by (simp add: slow_body_def w2_def)
  have w1_eq: "w1 = fresh_world
          \<lparr>redis := (redis fresh_world)(get_lock_key wallet_A \<mapsto>
                       (lock_id_at fresh_world, Some (clock fresh_world + 30))),
           commands := commands fresh_world @ [SET_NX_EX (get_lock_key wallet_A)
                                                (lock_id_at fresh_world) 30]\<rparr>"
    using lock_enter_free_eq [OF fresh_world_free pos] by (simp add: w1_def default_lease)
  have other: "redis_get (get_lock_key wallet_A) w2 = Some other_holder"
    by (simp add: w2_def slow_body_def w1_eq redis_set_nx_ex_def redis_get_def fresh_world_def)
  have cmds: "commands w2 = [SET_NX_EX (get_lock_key wallet_A) (lock_id_at fresh_world) 30,
                            SET_NX_EX (get_lock_key wallet_A) other_holder 30]"
    by (simp add: w2_def slow_body_def w1_eq redis_set_nx_ex_def redis_get_def fresh_world_def)
  have diff: "other_holder \<noteq> lock_id_at fresh_world"
    by (simp add: other_holder_def lock_id_at_def fresh_world_def)
  show ?thesis
    using C10_release_only_own_lock [of default_manager wallet_A None fresh_world w1
            slow_body "Inr ()" w2, OF enter body] other cmds diff
    by simp
qed

section \<open>Properties of the circuit breaker\<close>

subsection \<open>Calls on an open breaker\<close>

text \<open>
  C3. When the breaker is OPEN and less than \<open>timeout_seconds\<close> have passed since the
  last failure, \<open>call\<close> raises the circuit-open error carrying the service name, the
  current failure count and the state "open", and leaves the store as it is, whatever
  the wrapped function: it is not invoked. When the timeout has elapsed, \<open>call\<close> sets
  the state to HALF\_OPEN (resetting the success count), invokes the function on that
  store, and then handles its outcome.
\<close>

theorem C3_open_breaker:
  assumes "get_state s = OPEN" and "last_failure_key s = Some last_failure"
  shows "(now s - last_failure < real_of_int (timeout_seconds (config self)) \<longrightarrow>
            call self func s =
              (Inl (CircuitBreakerOpenError (name self) (get_failure_count s) ''open''), s))
       \<and> (now s - last_failure \<ge> real_of_int (timeout_seconds (config self)) \<longrightarrow>
            get_state (s\<lparr>state_key := Some HALF_OPEN, successes_key := None\<rparr>) = HALF_OPEN
            \<and> call self func s =
                (case func (s\<lparr>state_key := Some HALF_OPEN, successes_key := None\<rparr>) of
                   (Inr result, s1) \<Rightarrow> (Inr result, on_success self s1)
                 | (Inl e, s1) \<Rightarrow>
                     (Inl (Raised e),
                      if expected_exception (config self) e then on_failure self e s1 else s1)))"
  using assms
  by (auto simp: call_def should_attempt_reset_def attempt_call_def state_value_def
      set_state_def reset_success_count_def get_state_def Let_def split: prod.splits sum.splits)


text \<open>
  C3 at the default breaker, open since a failure at the time 100: a call at the time
  110 is rejected with the failure count 5, a call at the time 130 goes through.
\<close>

theorem C3_open_breaker_witness:
  "get_state open_store = OPEN \<and> last_failure_key open_store = Some 100
   \<and> now open_store - 100 < real_of_int (timeout_seconds (config rpc_breaker))
   \<and> call rpc_breaker succeeding open_store =
         (Inl (CircuitBreakerOpenError ''blockchain-rpc'' 5 ''open''), open_store)
   \<and> get_state (open_store\<lparr>now := 130\<rparr>) = OPEN
   \<and> now (open_store\<lparr>now := 130\<rparr>) - 100 \<ge> real_of_int (timeout_seconds (config rpc_breaker))
   \<and> call rpc_breaker succeeding (open_store\<lparr>now := 130\<rparr>) =
         (Inr ''0xhash'',
          open_store\<lparr>now := 130, state_key := Some HALF_OPEN, successes_key := Some 1\<rparr>)"
  using C3_open_breaker [of open_store 100 rpc_breaker succeeding]
    C3_open_breaker [of "open_store\<lparr>now := 130\<rparr>" 100 rpc_breaker succeeding]
  by (simp add: open_store_def rpc_breaker_def get_state_def get_failure_count_def
      succeeding_def on_success_def increment_success_count_def)

subsection \<open>Transitions on success and failure\<close>

lemma on_success_closed:
  "closed_after_recovery s \<Longrightarrow> closed_after_recovery (on_success self s)"
  by (simp add: closed_after_recovery_def on_success_def reset_failure_count_def get_state_def)

lemma on_success_half_open:
  assumes "get_state s = HALF_OPEN"
  shows "(int (Suc (get_success_count s)) \<ge> success_threshold (config self)
            \<longrightarrow> closed_after_recovery (on_success self s))
       \<and> (int (Suc (get_success_count s)) < success_threshold (config self)
            \<longrightarrow> on_success self s = s\<lparr>successes_key := Some (Suc (get_success_count s))\<rparr>)"
  using assms
  by (auto simp: closed_after_recovery_def on_success_def increment_success_count_def
      get_success_count_def reset_failure_count_def reset_success_count_def set_state_def
      get_state_def Let_def split: option.splits)

lemma successes_progress:
  assumes "get_state s = HALF_OPEN"
  shows "closed_after_recovery ((on_success self ^^ k) s)
       \<or> (get_state ((on_success self ^^ k) s) = HALF_OPEN
          \<and> get_success_count ((on_success self ^^ k) s) = get_success_count s + k
          \<and> (0 < k \<longrightarrow> int (get_success_count s + k) < success_threshold (config self)))"
proof (induction k)
  case 0
  then show ?case using assms by simp
next
  case (Suc k)
  let ?s = "(on_success self ^^ k) s"
  from Suc.IH show ?case
  proof
    assume "closed_after_recovery ?s"
    then show ?thesis by (simp add: on_success_closed)
  next
    assume h: "get_state ?s = HALF_OPEN
          \<and> get_success_count ?s = get_success_count s + k
          \<and> (0 < k \<longrightarrow> int (get_success_count s + k) < success_threshold (config self))"
    show ?thesis
    proof (cases "int (Suc (get_success_count ?s)) \<ge> success_threshold (config self)")
      case True
      then show ?thesis
        using on_success_half_open [of ?s self] h by simp
    next
      case False
      then have "on_success self ?s = ?s\<lparr>successes_key := Some (Suc (get_success_count ?s))\<rparr>"
        using on_success_half_open [of ?s self] h by simp
      then show ?thesis
        using h False by (simp add: get_state_def get_success_count_def)
    qed
  qed
qed

lemma successes_close:
  assumes "get_state s = HALF_OPEN" and "1 \<le> success_threshold (config self)"
  shows "closed_after_recovery ((on_success self ^^ nat (success_threshold (config self))) s)"
  using successes_progress [OF assms(1), where self = self
      and k = "nat (success_threshold (config self))"] assms(2)
  by auto

lemma successes_stay_half_open:
  assumes "get_state s = HALF_OPEN" and "successes_key s = None"
    and "int k < success_threshold (config self)"
  shows "get_state ((on_success self ^^ k) s) = HALF_OPEN
       \<and> successes_key ((on_success self ^^ k) s) = (if k = 0 then None else Some k)
       \<and> failures_key ((on_success self ^^ k) s) = failures_key s"
  using assms(3)
proof (induction k)
  case 0
  then show ?case using assms(1,2) by simp
next
  case (Suc k)
  let ?s = "(on_success self ^^ k) s"
  from Suc have ih: "get_state ?s = HALF_OPEN"
      "successes_key ?s = (if k = 0 then None else Some k)"
      "failures_key ?s = failures_key s"
    by simp_all
  have c: "get_success_count ?s = k"
    using ih(2) by (simp add: get_success_count_def)
  have "on_success self ?s = ?s\<lparr>successes_key := Some (Suc k)\<rparr>"
    using on_success_half_open [OF ih(1), of self] c Suc.prems by simp
  then show ?case
    using ih by (simp add: get_state_def)
qed

text \<open>
  C4. In HALF\_OPEN a failure sets the state to OPEN, resets the success count and
  increments the failure count. With a success threshold of at least one,
  \<open>success_threshold\<close> successes in a row from HALF\_OPEN leave the breaker CLOSED with
  the failure and the success counter reset, and, counting from a fresh HALF\_OPEN,
  fewer successes leave it HALF\_OPEN. In CLOSED a failure increments the failure count,
  and the state becomes OPEN exactly when the new count reaches \<open>failure_threshold\<close>.
  A call on a breaker that is not OPEN runs these handlers on the outcome of the wrapped
  function.
\<close>

theorem C4_breaker_transitions:
  assumes "1 \<le> success_threshold (config self)"
  shows "(get_state s = HALF_OPEN \<longrightarrow>
            get_state (on_failure self e s) = OPEN
            \<and> successes_key (on_failure self e s) = None
            \<and> get_failure_count (on_failure self e s) = get_failure_count s + 1)
       \<and> (get_state s = HALF_OPEN \<longrightarrow>
            get_state ((on_success self ^^ nat (success_threshold (config self))) s) = CLOSED
            \<and> failures_key ((on_success self ^^ nat (success_threshold (config self))) s) = None
            \<and> successes_key ((on_success self ^^ nat (success_threshold (config self))) s) = None)
       \<and> (get_state s = HALF_OPEN \<and> successes_key s = None
            \<and> int k < success_threshold (config self) \<longrightarrow>
            get_state ((on_success self ^^ k) s) = HALF_OPEN)
       \<and> (get_state s = CLOSED \<longrightarrow>
            get_failure_count (on_failure self e s) = get_failure_count s + 1
            \<and> get_state (on_failure self e s) =
                (if int (get_failure_count s + 1) \<ge> failure_threshold (config self)
                 then OPEN else CLOSED))
       \<and> (get_state s \<noteq> OPEN \<and> func s = (Inr v, s1) \<longrightarrow>
            call self func s = (Inr v, on_success self s1))
       \<and> (get_state s \<noteq> OPEN \<and> func s = (Inl e, s1) \<and> expected_exception (config self) e \<longrightarrow>
            call self func s = (Inl (Raised e), on_failure self e s1))"
proof (intro conjI impI)
  assume "get_state s = HALF_OPEN"
  then show "get_state (on_failure self e s) = OPEN"
    "successes_key (on_failure self e s) = None"
    "get_failure_count (on_failure self e s) = get_failure_count s + 1"
    by (simp_all add: on_failure_def increment_failure_count_def reset_success_count_def
        set_state_def get_state_def get_failure_count_def Let_def split: option.splits)
next
  assume "get_state s = HALF_OPEN"
  then have "closed_after_recovery ((on_success self ^^ nat (success_threshold (config self))) s)"
    using assms by (rule successes_close)
  then show "get_state ((on_success self ^^ nat (success_threshold (config self))) s) = CLOSED"
    "failures_key ((on_success self ^^ nat (success_threshold (config self))) s) = None"
    "successes_key ((on_success self ^^ nat (success_threshold (config self))) s) = None"
    by (simp_all add: closed_after_recovery_def)
next
  assume "get_state s = HALF_OPEN \<and> successes_key s = None
            \<and> int k < success_threshold (config self)"
  then show "get_state ((on_success self ^^ k) s) = HALF_OPEN"
    using successes_stay_half_open [where s = s and k = k and self = self] by simp
next
  assume "get_state s = CLOSED"
  then show "get_failure_count (on_failure self e s) = get_failure_count s + 1"
    "get_state (on_failure self e s) =
       (if int (get_failure_count s + 1) \<ge> failure_threshold (config self)
        then OPEN else CLOSED)"
    by (simp_all add: on_failure_def increment_failure_count_def
        set_state_def get_state_def get_failure_count_def Let_def split: option.splits)
next
  assume "get_state s \<noteq> OPEN \<and> func s = (Inr v, s1)"
  then show "call self func s = (Inr v, on_success self s1)"
    by (simp add: call_def attempt_call_def)
next
  assume "get_state s \<noteq> OPEN \<and> func s = (Inl e, s1) \<and> expected_exception (config self) e"
  then show "call self func s = (Inl (Raised e), on_failure self e s1)"
    by (simp add: call_def attempt_call_def)
qed


text \<open>
  C4 at the default breaker (two successes to close, five failures to open).
\<close>

theorem C4_breaker_transitions_witness:
  "1 \<le> success_threshold (config rpc_breaker)
   \<and> get_state half_open_store = HALF_OPEN \<and> successes_key half_open_store = None
   \<and> get_state (on_failure rpc_breaker (Exn ConnectionError ''connection refused'')
                    half_open_store) = OPEN
   \<and> get_failure_count (on_failure rpc_breaker (Exn ConnectionError ''connection refused'')
                            half_open_store) = 6
   \<and> int 1 < success_threshold (config rpc_breaker)
   \<and> get_state ((on_success rpc_breaker ^^ 1) half_open_store) = HALF_OPEN
   \<and> get_state ((on_success rpc_breaker ^^ 2) half_open_store) = CLOSED
   \<and> failures_key ((on_success rpc_breaker ^^ 2) half_open_store) = None
   \<and> successes_key ((on_success rpc_breaker ^^ 2) half_open_store) = None
   \<and> get_state closed_store = CLOSED
   \<and> get_failure_count (on_failure rpc_breaker (Exn ConnectionError ''connection refused'')
                            closed_store) = 5
   \<and> get_state (on_failure rpc_breaker (Exn ConnectionError ''connection refused'')
                    closed_store) = OPEN
   \<and> call rpc_breaker succeeding half_open_store =
         (Inr ''0xhash'', on_success rpc_breaker half_open_store)
   \<and> call rpc_breaker failing closed_store =
         (Inl (Raised (Exn ConnectionError ''connection refused'')),
          on_failure rpc_breaker (Exn ConnectionError ''connection refused'') closed_store)"
proof -
  have thr: "1 \<le> success_threshold (config rpc_breaker)"
    by (simp add: rpc_breaker_def)
  have two: "nat (success_threshold (config rpc_breaker)) = 2"
    by (simp add: rpc_breaker_def)
  have h: "get_state half_open_store = HALF_OPEN" "successes_key half_open_store = None"
    "get_failure_count half_open_store = 5"
    by (simp_all add: half_open_store_def get_state_def get_failure_count_def)
  have c: "get_state closed_store = CLOSED" "get_failure_count closed_store = 4"
    by (simp_all add: closed_store_def get_state_def get_failure_count_def)
  have f: "failure_threshold (config rpc_breaker) = 5" "success_threshold (config rpc_breaker) = 2"
    "expected_exception (config rpc_breaker) (Exn ConnectionError ''connection refused'')"
    by (simp_all add: rpc_breaker_def)
  have fs: "succeeding half_open_store = (Inr ''0xhash'', half_open_store)"
    "failing closed_store = (Inl (Exn ConnectionError ''connection refused''), closed_store)"
    by (simp_all add: succeeding_def failing_def)
  show ?thesis
    using C4_breaker_transitions [OF thr, where s = half_open_store and k = 1
        and e = "Exn ConnectionError ''connection refused''" and func = succeeding
        and v = "''0xhash''" and ?s1.0 = half_open_store]
      C4_breaker_transitions [OF thr, where s = closed_store and k = 1
        and e = "Exn ConnectionError ''connection refused''" and func = failing
        and v = "''0xhash''" and ?s1.0 = closed_store]
      h c f fs two
    by simp
qed

section \<open>Properties of the idempotency layer\<close>

text \<open>
  C5, as stated, fails. The wrapper caches a response only when it is a dictionary. A
  handler that returns another kind of object is invoked again by a second request with
  the same key and path within the time to live: the second request carries out a second
  side effect and gets a different response.
\<close>

theorem C5_non_dict_counterexample:
  "fst (idempotent 3600 text_codec counting_handler (Some ''mint-7f3a9c1b'')
          (Some ''/token/mint'') empty_cache_world) = Inr (OtherResult 1)
   \<and> idempotent 3600 text_codec counting_handler (Some ''mint-7f3a9c1b'') (Some ''/token/mint'')
        (snd (idempotent 3600 text_codec counting_handler (Some ''mint-7f3a9c1b'')
                (Some ''/token/mint'') empty_cache_world))
       = (Inr (OtherResult 2), empty_cache_world\<lparr>effects := 2\<rparr>)"
  by (simp add: idempotent_def get_cached_response_def counting_handler_def
      empty_cache_world_def)


text \<open>
  C5, amended. Let a first request with a non-empty key find no cached entry, let its
  handler return a dictionary R that the JSON codec writes to a non-empty text and reads
  back as the same entry, and let the cache be working with a positive time to live.
  Then the request returns R and stores it. As long as the cache is working and the
  entry under this key and path is the stored one, every later request made before the
  entry expires, whatever its handler, gets the JSON response with the content R and the
  status 200 and leaves the world unchanged, so its handler is not invoked; a request
  made when the time to live has passed gets what its own handler returns, with that
  handler's side effects: the handler executes afresh.
\<close>

theorem C5_idempotent_amended:
  assumes "idempotency_key \<noteq> []"
    and "cache_key = generate_key idempotency_key
                       (case request_path of Some path \<Rightarrow> path | None \<Rightarrow> ''unknown'')"
    and "get_cached_response codec cache_key w = None"
    and "func w = (Inr (DictResult R), w1)"
    and "client_up w1" and "0 < ttl"
    and "dumps codec \<lparr>cached_body = R, cached_status_code = Some 200\<rparr> = Some text"
    and "text \<noteq> []"
    and "loads codec text = Some \<lparr>cached_body = R, cached_status_code = Some 200\<rparr>"
  shows "\<exists>w2. idempotent ttl codec func (Some idempotency_key) request_path w
                = (Inr (DictResult R), w2)
           \<and> effects w2 = effects w1
           \<and> (\<forall>w3 func'. client_up w3 \<and> cache w3 cache_key = cache w2 cache_key \<longrightarrow>
                 (wall_clock w3 < wall_clock w1 + real_of_int ttl \<longrightarrow>
                    idempotent ttl codec func' (Some idempotency_key) request_path w3
                      = (Inr (JSONResponse R 200 :: ('a, 'b) response), w3))
               \<and> (wall_clock w3 \<ge> wall_clock w1 + real_of_int ttl \<longrightarrow>
                    fst (idempotent ttl codec func' (Some idempotency_key) request_path w3)
                      = (fst (func' w3) :: exn + ('a, 'b) response)
                    \<and> effects (snd (idempotent ttl codec func' (Some idempotency_key)
                                      request_path w3))
                      = effects (snd (func' w3))))"
proof -
  let ?entry = "\<lparr>cached_body = R, cached_status_code = Some 200\<rparr>"
  let ?w2 = "w1\<lparr>cache := (cache w1)(cache_key \<mapsto> (text, wall_clock w1 + real_of_int ttl))\<rparr>"
  have stored: "store_response codec cache_key ?entry ttl w1 = (True, ?w2)"
    using assms(5-7) by (simp add: store_response_def)
  have first: "idempotent ttl codec func (Some idempotency_key) request_path w
                 = (Inr (DictResult R), ?w2)"
    using assms(1,3,4) stored by (simp add: idempotent_def assms(2) [symmetric])
  have later: "(wall_clock w3 < wall_clock w1 + real_of_int ttl \<longrightarrow>
                    idempotent ttl codec func' (Some idempotency_key) request_path w3
                      = (Inr (JSONResponse R 200 :: ('a, 'b) response), w3))
               \<and> (wall_clock w3 \<ge> wall_clock w1 + real_of_int ttl \<longrightarrow>
                    fst (idempotent ttl codec func' (Some idempotency_key) request_path w3)
                      = (fst (func' w3) :: exn + ('a, 'b) response)
                    \<and> effects (snd (idempotent ttl codec func' (Some idempotency_key)
                                      request_path w3))
                      = effects (snd (func' w3)))"
    if up: "client_up w3" and same: "cache w3 cache_key = cache ?w2 cache_key"
    for w3 and func' :: "idem_world \<Rightarrow> (exn + ('a, 'b) response) \<times> idem_world"
  proof (intro conjI impI)
    assume "wall_clock w3 < wall_clock w1 + real_of_int ttl"
    then have "get_cached_response codec cache_key w3 = Some ?entry"
      using up same assms(8,9) by (simp add: get_cached_response_def)
    then show "idempotent ttl codec func' (Some idempotency_key) request_path w3
                 = (Inr (JSONResponse R 200), w3)"
      using assms(1) by (simp add: idempotent_def assms(2) [symmetric])
  next
    assume "wall_clock w3 \<ge> wall_clock w1 + real_of_int ttl"
    then have miss: "get_cached_response codec cache_key w3 = None"
      using up same by (simp add: get_cached_response_def)
    obtain r w4 where f: "func' w3 = (r, w4)"
      by (cases "func' w3") auto
    have eff: "effects (snd (store_response codec cache_key e ttl w4)) = effects w4" for e
      by (simp add: store_response_def split: option.splits)
    show "fst (idempotent ttl codec func' (Some idempotency_key) request_path w3)
            = fst (func' w3)"
      using assms(1) miss f
      by (simp add: idempotent_def assms(2) [symmetric] split: sum.splits response.splits)
    show "effects (snd (idempotent ttl codec func' (Some idempotency_key) request_path w3))
            = effects (snd (func' w3))"
      using assms(1) miss f eff
      by (simp add: idempotent_def assms(2) [symmetric] split: sum.splits response.splits)
  qed
  show ?thesis
    using first later by (intro exI [of _ ?w2]) simp
qed


text \<open>
  The amended C5 at the key "mint-7f3a9c1b" on the path "/token/mint" with a time to
  live of 3600 seconds: a second request after 3599 seconds gets the cached body, one
  after 3600 seconds runs its handler.
\<close>

theorem C5_idempotent_witness:
  "idempotent 3600 text_codec mint_handler (Some ''mint-7f3a9c1b'') (Some ''/token/mint'')
      empty_cache_world = (Inr (DictResult ''queued''), cached_world)
   \<and> idempotent 3600 text_codec counting_handler (Some ''mint-7f3a9c1b'') (Some ''/token/mint'')
        (cached_world\<lparr>wall_clock := 3599\<rparr>)
       = (Inr (JSONResponse ''queued'' 200), cached_world\<lparr>wall_clock := 3599\<rparr>)
   \<and> fst (idempotent 3600 text_codec counting_handler (Some ''mint-7f3a9c1b'')
            (Some ''/token/mint'') (cached_world\<lparr>wall_clock := 3600\<rparr>))
       = Inr (OtherResult 2)
   \<and> effects (snd (idempotent 3600 text_codec counting_handler (Some ''mint-7f3a9c1b'')
                     (Some ''/token/mint'') (cached_world\<lparr>wall_clock := 3600\<rparr>))) = 2"
proof -
  let ?key = "''idempotency:/token/mint:mint-7f3a9c1b''"
  let ?w1 = "empty_cache_world\<lparr>effects := 1\<rparr>"
  have k: "?key = generate_key ''mint-7f3a9c1b'' (case Some ''/token/mint'' of
                      Some path \<Rightarrow> path | None \<Rightarrow> ''unknown'')"
    by (simp add: generate_key_def)
  have miss: "get_cached_response text_codec ?key empty_cache_world = None"
    by (simp add: get_cached_response_def empty_cache_world_def)
  have run: "mint_handler empty_cache_world = (Inr (DictResult ''queued''), ?w1)"
    by (simp add: mint_handler_def empty_cache_world_def)
  have up: "client_up ?w1"
    by (simp add: empty_cache_world_def)
  have d: "dumps text_codec \<lparr>cached_body = ''queued'', cached_status_code = Some 200\<rparr>
             = Some ''200:queued''"
    by (simp add: text_codec_def)
  have l: "loads text_codec ''200:queued''
             = Some \<lparr>cached_body = ''queued'', cached_status_code = Some 200\<rparr>"
    by (simp add: text_codec_def)
  from C5_idempotent_amended [where func = mint_handler and ttl = 3600, OF _ k miss run up _ d _ l]
  obtain w2 where w2:
    "idempotent 3600 text_codec mint_handler (Some ''mint-7f3a9c1b'') (Some ''/token/mint'')
       empty_cache_world = (Inr (DictResult ''queued''), w2)"
    "\<forall>w3 func'. client_up w3 \<and> cache w3 ?key = cache w2 ?key \<longrightarrow>
       (wall_clock w3 < wall_clock ?w1 + real_of_int 3600 \<longrightarrow>
          idempotent 3600 text_codec func' (Some ''mint-7f3a9c1b'') (Some ''/token/mint'') w3
            = (Inr (JSONResponse ''queued'' 200 :: (string, nat) response), w3))
     \<and> (wall_clock w3 \<ge> wall_clock ?w1 + real_of_int 3600 \<longrightarrow>
          fst (idempotent 3600 text_codec func' (Some ''mint-7f3a9c1b'') (Some ''/token/mint'') w3)
            = (fst (func' w3) :: exn + (string, nat) response)
          \<and> effects (snd (idempotent 3600 text_codec func' (Some ''mint-7f3a9c1b'')
                            (Some ''/token/mint'') w3))
            = effects (snd (func' w3)))"
    by auto
  have w2_eq: "w2 = cached_world"
    using w2(1)
    by (simp add: idempotent_def get_cached_response_def mint_handler_def store_response_def
        empty_cache_world_def text_codec_def generate_key_def cached_world_def)
  have hit: "idempotent 3600 text_codec counting_handler (Some ''mint-7f3a9c1b'')
               (Some ''/token/mint'') (cached_world\<lparr>wall_clock := 3599\<rparr>)
             = (Inr (JSONResponse ''queued'' 200), cached_world\<lparr>wall_clock := 3599\<rparr>)"
    using w2(2) [rule_format, of "cached_world\<lparr>wall_clock := 3599\<rparr>" counting_handler]
    by (simp add: w2_eq cached_world_def empty_cache_world_def)
  have fresh: "fst (idempotent 3600 text_codec counting_handler (Some ''mint-7f3a9c1b'')
                 (Some ''/token/mint'') (cached_world\<lparr>wall_clock := 3600\<rparr>))
               = Inr (OtherResult 2)
      \<and> effects (snd (idempotent 3600 text_codec counting_handler (Some ''mint-7f3a9c1b'')
                     (Some ''/token/mint'') (cached_world\<lparr>wall_clock := 3600\<rparr>))) = 2"
    using w2(2) [rule_format, of "cached_world\<lparr>wall_clock := 3600\<rparr>" counting_handler]
    by (simp add: w2_eq cached_world_def empty_cache_world_def counting_handler_def)
  show ?thesis
    using w2(1) w2_eq hit fresh by simp
qed

end
